theory Spec2Isabelle
  imports Complex_Main "HOL-Library.Log_Nat"
begin

section \<open>JavaScript values as the engine uses them\<close>

text \<open>
  The assessment profile is a plain JavaScript object. Every field may be absent
  (\<open>undefined\<close>), which is \<open>None\<close> here. The enum-like controls are strings, the counts
  are numbers (a \<open>NaN\<close> from the form's \<open>parseInt\<close> behaves as \<open>None\<close> in every test the
  engine makes: it is falsy and compares false), the free-form lists are arrays of strings.
\<close>

text \<open>The errors: a TypeError thrown by the engine itself, and the rejection of a call
  on the AI engine.\<close>

datatype error = TypeError | GenerationFailed

record profile =
  name :: "string option"
  industry :: "string option"
  employees :: "int option"
  policiesDocumented :: "string option"
  cisoPresent :: "string option"
  securityTeamSize :: "int option"
  managementReview :: "string option"
  riskAssessmentFreq :: "string option"
  cyberInsurance :: "string option"
  bcpDocumented :: "string option"
  backupFrequency :: "string option"
  complianceFrameworks :: "string list option"
  privacyProgram :: "string option"
  lastAuditDate :: "string option"
  firewallEnabled :: "string option"
  networkSegmentation :: "string option"
  antivirus :: "string option"
  edr :: "string option"
  vulnerabilityScanning :: "string option"
  patchingAutomated :: "string option"
  mfa :: "string option"
  sso :: "string option"
  encryption :: "string option"
  codeReview :: "string option"
  incidentResponsePlan :: "string option"
  securityTraining :: "string option"
  vendorRiskProgram :: "string option"
  remote :: "string option"
  hosting :: "string option"
  cloudDataClassification :: "string option"
  vendors :: "string option"
  criticalVendorCount :: "int option"
  vendorRiskAssessments :: "string option"
  dataTypes :: "string list option"
  dataEncryptionAtRest :: "string option"
  dataEncryptionInTransit :: "string option"
  logging :: "string option"
  compliance_status :: "string option"
  privilegedAccessManagement :: "string option"

text \<open>The object \<open>{}\<close>: every field absent.\<close>

definition empty_profile :: profile where
  "empty_profile = \<lparr>
     name = None,
     industry = None,
     employees = None,
     policiesDocumented = None,
     cisoPresent = None,
     securityTeamSize = None,
     managementReview = None,
     riskAssessmentFreq = None,
     cyberInsurance = None,
     bcpDocumented = None,
     backupFrequency = None,
     complianceFrameworks = None,
     privacyProgram = None,
     lastAuditDate = None,
     firewallEnabled = None,
     networkSegmentation = None,
     antivirus = None,
     edr = None,
     vulnerabilityScanning = None,
     patchingAutomated = None,
     mfa = None,
     sso = None,
     encryption = None,
     codeReview = None,
     incidentResponsePlan = None,
     securityTraining = None,
     vendorRiskProgram = None,
     remote = None,
     hosting = None,
     cloudDataClassification = None,
     vendors = None,
     criticalVendorCount = None,
     vendorRiskAssessments = None,
     dataTypes = None,
     dataEncryptionAtRest = None,
     dataEncryptionInTransit = None,
     logging = None,
     compliance_status = None,
     privilegedAccessManagement = None\<rparr>"

text \<open>The field \<open>profile.compliance\<close> is \<open>compliance_status\<close>: the maturity result below
  has a field \<open>compliance\<close> of its own.\<close>

text \<open>Truthiness of a string field (\<open>undefined\<close> and the empty string are falsy) and of
  a numeric field (\<open>undefined\<close>, \<open>NaN\<close> and 0 are falsy).\<close>

definition truthy_str :: "string option \<Rightarrow> bool" where
  "truthy_str v = (case v of None \<Rightarrow> False | Some s \<Rightarrow> s \<noteq> [])"

definition truthy_num :: "int option \<Rightarrow> bool" where
  "truthy_num v = (case v of None \<Rightarrow> False | Some n \<Rightarrow> n \<noteq> 0)"

text \<open>\<open>v > k\<close> on a numeric field: false when the field is \<open>undefined\<close> or \<open>NaN\<close>.\<close>

definition num_gt :: "int option \<Rightarrow> int \<Rightarrow> bool" where
  "num_gt v k = (case v of None \<Rightarrow> False | Some n \<Rightarrow> n > k)"

text \<open>\<open>list.includes(x)\<close> on a list field. On \<open>undefined\<close> the property access
  throws a TypeError.\<close>

definition includes_js :: "string list option \<Rightarrow> string \<Rightarrow> error + bool" where
  "includes_js v x = (case v of None \<Rightarrow> Inl TypeError | Some xs \<Rightarrow> Inr (x \<in> set xs))"

subsection \<open>Numbers\<close>

text \<open>
  A JavaScript number is an IEEE 754 double. A finite double is modelled by the rational
  it denotes, and every arithmetic operation rounds the exact result to the nearest
  double, ties to the even significand (53 significant bits). \<open>binade x\<close> is the
  exponent \<open>e\<close> with \<open>2^e \<le> |x| < 2^(e+1)\<close>. Overflow and subnormal numbers are not
  modelled: the engine's numbers stay between \<open>2^-4\<close> and \<open>2^10\<close>. Whole numbers of
  that size are doubles themselves, and arithmetic on them is exact; they are \<open>int\<close>.
\<close>

definition round_ties_even :: "rat \<Rightarrow> int" where
  "round_ties_even x =
     (let f = \<lfloor>x\<rfloor>; r = x - of_int f
      in if r < 1 / 2 then f else if r > 1 / 2 then f + 1 else if even f then f else f + 1)"

definition binade :: "rat \<Rightarrow> int" where
  "binade x =
     (let (a, b) = quotient_of \<bar>x\<bar>; e = bitlen a - bitlen b
      in if 2 powi e \<le> \<bar>x\<bar> then e else e - 1)"

definition to_double :: "rat \<Rightarrow> rat" where
  "to_double x =
     (if x = 0 then 0
      else let ulp = 2 powi (binade x - 52) in of_int (round_ties_even (x / ulp)) * ulp)"

text \<open>\<open>a + b\<close>, \<open>a - b\<close> and \<open>a * b\<close> on doubles.\<close>

definition js_add :: "rat \<Rightarrow> rat \<Rightarrow> rat" where
  "js_add a b = to_double (a + b)"

definition js_sub :: "rat \<Rightarrow> rat \<Rightarrow> rat" where
  "js_sub a b = to_double (a - b)"

definition js_mul :: "rat \<Rightarrow> rat \<Rightarrow> rat" where
  "js_mul a b = to_double (a * b)"

text \<open>\<open>Math.round\<close>: the nearest integer, a tie going up. It is exact on a double.\<close>

definition Math_round :: "rat \<Rightarrow> int" where
  "Math_round x = \<lfloor>x + 1 / 2\<rfloor>"

section \<open>The scoring framework\<close>

subsection \<open>The industry weight table\<close>

datatype dim = Governance | Risk | Compliance | Technical | Application | Operational

record dimension =
  weight :: rat
  threshold :: rat
  label :: "string option"

record config =
  dimensions :: "dim \<Rightarrow> dimension option"
  penalties :: "(string \<times> int) list"
  bonuses :: "(string \<times> int) list"

text \<open>
  What \<open>table[key]\<close> finds on an object literal: an own entry, a property inherited
  from \<open>Object.prototype\<close> (a function or an object: truthy, and without a
  \<open>dimensions\<close> property), or nothing (\<open>undefined\<close>).
\<close>

datatype 'a property = Own 'a | Inherited | Missing

definition object_prototype_keys :: "string list" where
  "object_prototype_keys =
     [''constructor'', ''__proto__'', ''hasOwnProperty'', ''isPrototypeOf'',
      ''propertyIsEnumerable'', ''toLocaleString'', ''toString'', ''valueOf'',
      ''__defineGetter__'', ''__defineSetter__'', ''__lookupGetter__'', ''__lookupSetter__'']"

definition object_literal :: "(string \<times> 'a) list \<Rightarrow> string \<Rightarrow> 'a property" where
  "object_literal entries k =
     (case map_of entries k of
        Some v \<Rightarrow> Own v
      | None \<Rightarrow> if k \<in> set object_prototype_keys then Inherited else Missing)"

text \<open>An own entry and an inherited property are truthy, \<open>undefined\<close> is falsy.\<close>

definition truthy_property :: "'a property \<Rightarrow> bool" where
  "truthy_property v = (case v of Missing \<Rightarrow> False | _ \<Rightarrow> True)"

definition dims_of :: "(dim \<times> dimension) list \<Rightarrow> dim \<Rightarrow> dimension option" where
  "dims_of entries = map_of entries"

definition fintech_config :: config where
  "fintech_config = \<lparr>
     dimensions = dims_of [
       (Governance, \<lparr>weight = to_double (15 / 100), threshold = 75, label = Some ''Governance & Strategy''\<rparr>),
       (Risk, \<lparr>weight = to_double (15 / 100), threshold = 80, label = Some ''Risk & Continuity''\<rparr>),
       (Compliance, \<lparr>weight = to_double (25 / 100), threshold = 90, label = Some ''Compliance & Privacy''\<rparr>),
       (Technical, \<lparr>weight = to_double (15 / 100), threshold = 85, label = Some ''Technical Security''\<rparr>),
       (Application, \<lparr>weight = to_double (15 / 100), threshold = 85, label = Some ''App & Data Security''\<rparr>),
       (Operational, \<lparr>weight = to_double (15 / 100), threshold = 80, label = Some ''Operational Security''\<rparr>)],
     penalties = [(''no_mfa'', -25), (''no_encryption'', -25), (''no_incident_response'', -20)],
     bonuses = [(''cert_exists'', 10)]\<rparr>"

definition healthcare_config :: config where
  "healthcare_config = \<lparr>
     dimensions = dims_of [
       (Governance, \<lparr>weight = to_double (10 / 100), threshold = 70, label = None\<rparr>),
       (Risk, \<lparr>weight = to_double (15 / 100), threshold = 80, label = None\<rparr>),
       (Compliance, \<lparr>weight = to_double (30 / 100), threshold = 95, label = None\<rparr>),
       (Technical, \<lparr>weight = to_double (15 / 100), threshold = 80, label = None\<rparr>),
       (Application, \<lparr>weight = to_double (15 / 100), threshold = 85, label = None\<rparr>),
       (Operational, \<lparr>weight = to_double (15 / 100), threshold = 80, label = None\<rparr>)],
     penalties = [],
     bonuses = []\<rparr>"

definition saas_config :: config where
  "saas_config = \<lparr>
     dimensions = dims_of [
       (Governance, \<lparr>weight = to_double (10 / 100), threshold = 70, label = None\<rparr>),
       (Risk, \<lparr>weight = to_double (15 / 100), threshold = 75, label = None\<rparr>),
       (Compliance, \<lparr>weight = to_double (15 / 100), threshold = 80, label = None\<rparr>),
       (Technical, \<lparr>weight = to_double (20 / 100), threshold = 85, label = None\<rparr>),
       (Application, \<lparr>weight = to_double (25 / 100), threshold = 90, label = None\<rparr>),
       (Operational, \<lparr>weight = to_double (15 / 100), threshold = 80, label = None\<rparr>)],
     penalties = [],
     bonuses = []\<rparr>"

definition default_config :: config where
  "default_config = \<lparr>
     dimensions = dims_of [
       (Governance, \<lparr>weight = to_double (166 / 1000), threshold = 70, label = Some ''Governance & Strategy''\<rparr>),
       (Risk, \<lparr>weight = to_double (166 / 1000), threshold = 70, label = Some ''Risk & Continuity''\<rparr>),
       (Compliance, \<lparr>weight = to_double (166 / 1000), threshold = 70, label = Some ''Compliance & Privacy''\<rparr>),
       (Technical, \<lparr>weight = to_double (166 / 1000), threshold = 70, label = Some ''Technical Security''\<rparr>),
       (Application, \<lparr>weight = to_double (166 / 1000), threshold = 70, label = Some ''App & Data Security''\<rparr>),
       (Operational, \<lparr>weight = to_double (166 / 1000), threshold = 70, label = Some ''Operational Security''\<rparr>)],
     penalties = [(''no_mfa'', -20), (''no_backup'', -20)],
     bonuses = []\<rparr>"

definition industry_entries :: "(string \<times> config) list" where
  "industry_entries =
     [(''fintech'', fintech_config), (''healthcare'', healthcare_config),
      (''saas'', saas_config), (''default'', default_config)]"

definition INDUSTRY_WEIGHTS :: "string \<Rightarrow> config property" where
  "INDUSTRY_WEIGHTS = object_literal industry_entries"

subsection \<open>The six dimension scores\<close>

text \<open>The dimension scores are whole numbers; the weighted overall score is a double
  until it is rounded. \<open>clamp\<close> (\<open>Math.max(0, Math.min(100, val))\<close>) serves both.\<close>

definition clamp :: "'a::linordered_idom \<Rightarrow> 'a" where
  "clamp val = max 0 (min 100 val)"

definition calculateGovernanceScore :: "profile \<Rightarrow> int" where
  "calculateGovernanceScore p =
     (let score = (50::int);
          score = (if policiesDocumented p = Some ''complete'' then score + 20
                   else if policiesDocumented p = Some ''partial'' then score + 10
                   else score - 15);
          score = (if cisoPresent p = Some ''yes'' then score + 15 else score);
          score = (if truthy_num (securityTeamSize p) \<and> num_gt (securityTeamSize p) 0
                   then score + 10 else score);
          score = (if truthy_str (managementReview p) \<and> managementReview p \<noteq> Some ''never''
                   then score + 5 else score)
      in clamp score)"

definition calculateRiskScore :: "profile \<Rightarrow> int" where
  "calculateRiskScore p =
     (let score = (50::int);
          score = (if riskAssessmentFreq p = Some ''annual'' \<or> riskAssessmentFreq p = Some ''quarterly''
                   then score + 15 else score - 10);
          score = (if cyberInsurance p = Some ''yes'' then score + 10 else score);
          score = (if bcpDocumented p = Some ''yes'' then score + 15 else score - 10);
          score = (if backupFrequency p = Some ''daily'' \<or> backupFrequency p = Some ''real_time''
                   then score + 10
                   else if backupFrequency p = Some ''none'' then score - 20
                   else score)
      in clamp score)"

definition calculateComplianceScore :: "profile \<Rightarrow> int" where
  "calculateComplianceScore p =
     (let score = (50::int);
          certs = (case complianceFrameworks p of None \<Rightarrow> [] | Some cs \<Rightarrow> cs);
          score = (if length certs > 0 then score + 20 else score);
          score = (if ''iso27001'' \<in> set certs \<or> ''soc2'' \<in> set certs then score + 10 else score);
          score = (if privacyProgram p = Some ''yes'' then score + 10 else score);
          score = (if truthy_str (lastAuditDate p) \<and> lastAuditDate p \<noteq> Some ''never''
                   then score + 10 else score)
      in clamp score)"

definition calculateTechnicalScore :: "profile \<Rightarrow> int" where
  "calculateTechnicalScore p =
     (let score = (50::int);
          score = (if firewallEnabled p = Some ''yes'' then score + 10 else score);
          score = (if networkSegmentation p = Some ''yes'' then score + 10 else score);
          score = (if antivirus p = Some ''yes'' \<or> edr p = Some ''yes'' then score + 10 else score);
          score = (if vulnerabilityScanning p = Some ''regular'' then score + 15
                   else if vulnerabilityScanning p = Some ''never'' then score - 15
                   else score);
          score = (if patchingAutomated p = Some ''yes'' then score + 5 else score)
      in clamp score)"

definition calculateApplicationScore :: "profile \<Rightarrow> int" where
  "calculateApplicationScore p =
     (let score = (50::int);
          score = (if mfa p = Some ''mandatory'' then score + 25
                   else if mfa p = Some ''optional'' then score - 10
                   else score - 25);
          score = (if sso p = Some ''yes'' then score + 5 else score);
          score = (if encryption p = Some ''yes'' then score + 15 else score);
          score = (if codeReview p = Some ''yes'' then score + 10 else score)
      in clamp score)"

definition calculateOperationalScore :: "profile \<Rightarrow> int" where
  "calculateOperationalScore p =
     (let score = (50::int);
          score = (if incidentResponsePlan p = Some ''yes'' then score + 20 else score - 15);
          score = (if securityTraining p = Some ''regular'' then score + 15 else score - 10);
          score = (if vendorRiskProgram p = Some ''yes'' then score + 10 else score)
      in clamp score)"

subsection \<open>The weighted overall score\<close>

record maturity =
  overall :: int
  governance :: int
  risk :: int
  compliance :: int
  technical :: int
  application :: int
  operational :: int
  labels :: "dim \<Rightarrow> string"

definition maturity_labels :: "dim \<Rightarrow> string" where
  "maturity_labels d = (case d of
       Governance \<Rightarrow> ''Governance & Strategy''
     | Risk \<Rightarrow> ''Risk & Continuity''
     | Compliance \<Rightarrow> ''Compliance & Privacy''
     | Technical \<Rightarrow> ''Technical Security''
     | Application \<Rightarrow> ''App & Data Security''
     | Operational \<Rightarrow> ''Operational Security'')"

text \<open>The property key that \<open>profile.industry\<close> becomes: \<open>undefined\<close> is the key
  \<open>"undefined"\<close>.\<close>

definition property_key :: "string option \<Rightarrow> string" where
  "property_key v = (case v of None \<Rightarrow> ''undefined'' | Some s \<Rightarrow> s)"

text \<open>\<open>dims.d?.weight || 0.166\<close>: the fallback is taken when the dimension is absent
  or its weight is 0.\<close>

definition weight_or_default :: "(dim \<Rightarrow> dimension option) \<Rightarrow> dim \<Rightarrow> rat" where
  "weight_or_default dims d =
     (case dims d of
        None \<Rightarrow> to_double (166 / 1000)
      | Some e \<Rightarrow> if weight e = 0 then to_double (166 / 1000) else weight e)"

text \<open>
  \<open>calculateMaturityScore\<close>, with the table it reads as a parameter.
  \<open>industryKey\<close> is the profile's industry when the table lookup is truthy, else
  \<open>'default'\<close>; \<open>config\<close> is \<open>table[industryKey] || table.default\<close>; reading
  \<open>config.dimensions\<close> of an \<open>undefined\<close> config, or \<open>dims.governance\<close> of
  \<open>undefined\<close> dims, throws.
\<close>

definition calculateMaturityScore_with :: "(string \<Rightarrow> config property) \<Rightarrow> profile \<Rightarrow> error + maturity" where
  "calculateMaturityScore_with table p =
     (let industryKey = (if truthy_property (table (property_key (industry p)))
                         then property_key (industry p) else ''default'');
          config = (if truthy_property (table industryKey) then table industryKey
                    else table ''default'')
      in case config of
           Missing \<Rightarrow> Inl TypeError
         | Inherited \<Rightarrow> Inl TypeError
         | Own c \<Rightarrow>
            (let dims = dimensions c;
                 s_gov = calculateGovernanceScore p;
                 s_risk = calculateRiskScore p;
                 s_comp = calculateComplianceScore p;
                 s_tech = calculateTechnicalScore p;
                 s_app = calculateApplicationScore p;
                 s_ops = calculateOperationalScore p;
                 overall =
                   js_add (js_add (js_add (js_add (js_add
                     (js_mul (of_int s_gov) (weight_or_default dims Governance))
                     (js_mul (of_int s_risk) (weight_or_default dims Risk)))
                     (js_mul (of_int s_comp) (weight_or_default dims Compliance)))
                     (js_mul (of_int s_tech) (weight_or_default dims Technical)))
                     (js_mul (of_int s_app) (weight_or_default dims Application)))
                     (js_mul (of_int s_ops) (weight_or_default dims Operational));
                 overall = (if mfa p = Some ''none'' then js_sub overall 5 else overall);
                 overall = (if backupFrequency p = Some ''none'' then js_sub overall 5 else overall)
             in Inr \<lparr>overall = Math_round (clamp overall),
                     governance = Math_round (of_int s_gov),
                     risk = Math_round (of_int s_risk),
                     compliance = Math_round (of_int s_comp),
                     technical = Math_round (of_int s_tech),
                     application = Math_round (of_int s_app),
                     operational = Math_round (of_int s_ops),
                     labels = maturity_labels\<rparr>))"

definition calculateMaturityScore :: "profile \<Rightarrow> error + maturity" where
  "calculateMaturityScore = calculateMaturityScore_with INDUSTRY_WEIGHTS"

section \<open>Gap identification\<close>

record gap =
  category :: string
  severity :: string
  description :: string

text \<open>\<open>if (c) { list.push(x) }\<close>\<close>

definition push_when :: "bool \<Rightarrow> 'a \<Rightarrow> 'a list \<Rightarrow> 'a list" where
  "push_when c x xs = (if c then xs @ [x] else xs)"

text \<open>In the second description the dash is U+2014, given here by its UTF-8 bytes.\<close>

definition identifyGaps :: "profile \<Rightarrow> maturity \<Rightarrow> gap list" where
  "identifyGaps p scores =
     (let gaps = [];
          gaps = push_when (governance scores < 60)
            \<lparr>category = ''Governance'', severity = ''High'',
             description = ''Lack of formal security leadership and documented policies.''\<rparr> gaps;
          gaps = push_when (backupFrequency p = Some ''none'')
            \<lparr>category = ''Risk'', severity = ''Critical'',
             description = ''No backup strategy found'' @ [CHR 0xE2, CHR 0x80, CHR 0x94]
                           @ ''data loss is imminent in an attack.''\<rparr> gaps;
          gaps = push_when (bcpDocumented p \<noteq> Some ''yes'' \<and> risk scores < 50)
            \<lparr>category = ''Risk'', severity = ''Medium'',
             description = ''Undefined Business Continuity Plan.''\<rparr> gaps;
          gaps = push_when (compliance scores < 50
                            \<and> (industry p = Some ''fintech'' \<or> industry p = Some ''healthcare''))
            \<lparr>category = ''Compliance'', severity = ''High'',
             description = ''Compliance posture is weak for a regulated industry.''\<rparr> gaps;
          gaps = push_when (vulnerabilityScanning p = Some ''never'')
            \<lparr>category = ''Technical'', severity = ''High'',
             description = ''No visibility into system vulnerabilities.''\<rparr> gaps;
          gaps = push_when (mfa p = Some ''none'')
            \<lparr>category = ''Application'', severity = ''Critical'',
             description = ''Multi-Factor Authentication (MFA) is not enabled.''\<rparr> gaps;
          gaps = push_when (encryption p = Some ''no'')
            \<lparr>category = ''Application'', severity = ''High'',
             description = ''Sensitive data is not encrypted.''\<rparr> gaps;
          gaps = push_when (incidentResponsePlan p \<noteq> Some ''yes'')
            \<lparr>category = ''Operational'', severity = ''High'',
             description = ''No Incident Response Plan to handle breaches.''\<rparr> gaps;
          gaps = push_when (securityTraining p \<noteq> Some ''regular'')
            \<lparr>category = ''Operational'', severity = ''Medium'',
             description = ''Employees are not trained on security risks.''\<rparr> gaps
      in gaps)"

section \<open>The risk pool\<close>

text \<open>
  A risk record. Its field \<open>risk\<close> (the name of the risk) is \<open>risk_name\<close> here. The
  \<open>id\<close> is first the string \<open>R1\<close>, \<open>R2\<close>, ... and, in the returned list, a number.
  The labels are \<open>undefined\<close> (\<open>None\<close>) for a score outside the scale.
\<close>

datatype risk_id = IdStr string | IdNum int

record riskRecord =
  id :: risk_id
  risk_name :: string
  likelihoodScore :: int
  likelihoodLabel :: "string option"
  consequenceScore :: int
  consequenceLabel :: "string option"
  score :: int
  level :: string
  mitigation :: string

definition LIKELIHOOD_SCALE :: "int \<Rightarrow> string option" where
  "LIKELIHOOD_SCALE = map_of
     [(1, ''Rare''), (2, ''Unlikely''), (3, ''Possible''), (4, ''Likely''), (5, ''Almost Certain'')]"

definition CONSEQUENCE_SCALE :: "int \<Rightarrow> string option" where
  "CONSEQUENCE_SCALE = map_of
     [(1, ''Insignificant''), (2, ''Minor''), (3, ''Moderate''), (4, ''Major''),
      (5, ''Catastrophic''), (6, ''Doomsday'')]"

text \<open>The two versions of the engine differ in the level breakpoints.\<close>

definition getRiskLevel :: "int \<Rightarrow> string" where
  "getRiskLevel s =
     (if s \<ge> 25 then ''Extreme'' else if s \<ge> 15 then ''High''
      else if s \<ge> 6 then ''Medium'' else ''Low'')"

definition getRiskLevel_part000 :: "int \<Rightarrow> string" where
  "getRiskLevel_part000 s =
     (if s \<ge> 20 then ''Extreme'' else if s \<ge> 12 then ''High''
      else if s \<ge> 6 then ''Medium'' else ''Low'')"

text \<open>The decimal digits of a natural number, and \<open>String(n)\<close> for a whole number.\<close>

fun dec_string :: "nat \<Rightarrow> string" where
  "dec_string n =
     (if n < 10 then [char_of (48 + n)]
      else dec_string (n div 10) @ [char_of (48 + n mod 10)])"

definition String_of_int :: "int \<Rightarrow> string" where
  "String_of_int i = (if i < 0 then CHR ''-'' # dec_string (nat (- i)) else dec_string (nat i))"

text \<open>The local state of \<open>generateBaseRisks\<close>: the pool and the id counter.\<close>

record pool_state =
  pool :: "riskRecord list"
  idCounter :: nat

definition addToPool_with ::
  "(int \<Rightarrow> string) \<Rightarrow> string \<Rightarrow> int \<Rightarrow> int \<Rightarrow> string \<Rightarrow> pool_state \<Rightarrow> pool_state" where
  "addToPool_with riskLevel rsk likelihood consequence mitig st =
     (let product = likelihood * consequence
      in \<lparr>pool = pool st @
             [\<lparr>id = IdStr (CHR ''R'' # dec_string (idCounter st)),
               risk_name = rsk,
               likelihoodScore = likelihood,
               likelihoodLabel = LIKELIHOOD_SCALE likelihood,
               consequenceScore = consequence,
               consequenceLabel = CONSEQUENCE_SCALE consequence,
               score = product,
               level = riskLevel product,
               mitigation = mitig\<rparr>],
          idCounter = idCounter st + 1\<rparr>)"

definition addToPool :: "string \<Rightarrow> int \<Rightarrow> int \<Rightarrow> string \<Rightarrow> pool_state \<Rightarrow> pool_state" where
  "addToPool = addToPool_with getRiskLevel"

definition addToPool_part000 :: "string \<Rightarrow> int \<Rightarrow> int \<Rightarrow> string \<Rightarrow> pool_state \<Rightarrow> pool_state" where
  "addToPool_part000 = addToPool_with getRiskLevel_part000"

text \<open>\<open>if (c) { statement }\<close> on the state.\<close>

definition exec_if :: "bool \<Rightarrow> ('s \<Rightarrow> 's) \<Rightarrow> 's \<Rightarrow> 's" where
  "exec_if c f st = (if c then f st else st)"

text \<open>
  The end of \<open>generateBaseRisks\<close>, the same in both versions but for the size \<open>n\<close>:
  \<open>pool.sort((a, b) => b.score - a.score)\<close> (the sort is stable), \<open>pool.slice(0, n)\<close>,
  and the map that numbers the records from 1.
\<close>

definition select_top :: "nat \<Rightarrow> riskRecord list \<Rightarrow> riskRecord list" where
  "select_top n pl =
     (let sorted_pool = sort_key (\<lambda>r. - score r) pl;
          selectedRisks = take n sorted_pool
      in map (\<lambda>(index, r). r\<lparr>id := IdNum (int index + 1)\<rparr>) (enumerate 0 selectedRisks))"

subsection \<open>The version of \<open>src/logic/grcEngine.js\<close> (top 15)\<close>

text \<open>The pool as it is when the sort begins.\<close>

definition risk_pool :: "profile \<Rightarrow> pool_state" where
  "risk_pool p =
     (let st = \<lparr>pool = [], idCounter = 1\<rparr>;
          st = exec_if (remote p = Some ''yes'')
            (addToPool ''Remote Endpoint Compromise''
               (if mfa p = Some ''mandatory'' then 2 else 4) 4
               ''Enforce Endpoint Encryption, VPN, and Mandatory MFA'') st;
          st = exec_if (hosting p = Some ''cloud'')
            (addToPool ''Cloud Misconfiguration / Data Leak'' 3 5
               ''CSPM, Regular automated audits'') st;
          st = (if backupFrequency p = Some ''none''
                then addToPool ''Ransomware Data Loss'' 5 6
                       ''Implement 3-2-1 Backup Strategy immediately'' st
                else addToPool ''Ransomware Operational Impact'' 3 4
                       ''Test Restore Procedures'' st);
          st = exec_if (mfa p = Some ''none'')
            (addToPool ''Credential Reuse / Brute Force'' 5 4
               ''Implement MFA for all accesses'') st;
          st = exec_if (encryption p = Some ''no'')
            (addToPool ''Data Theft in Transit/Rest'' 3 5
               ''Enable full disk encryption and TLS 1.3'') st;
          st = exec_if (incidentResponsePlan p = Some ''no'')
            (addToPool ''Chaotic Breach Response'' 4 4
               ''Develop and Test IR Playbooks'') st;
          st = exec_if (vendorRiskProgram p = Some ''no'')
            (addToPool ''Third-Party Vendor Breach'' 3 4
               ''Implement Vendor Risk Assessments'') st;
          st = addToPool ''Phishing / Social Engineering'' 4 4 ''Security Awareness Training'' st;
          st = addToPool ''Insider Threat'' 2 3 ''Least Privilege Access Control'' st;
          st = addToPool ''Unpatched Vulnerabilities''
                 (if patchingAutomated p = Some ''yes'' then 2 else 4) 4
                 ''Automated Patch Management'' st;
          st = addToPool ''Shadow IT'' 3 2 ''CASB and Policy Enforcement'' st;
          st = addToPool ''DDoS Attack'' 2 3 ''DDoS Mitigation Service'' st;
          st = addToPool ''Regulatory Fines'' 2 5 ''Compliance Gap Analysis'' st
      in st)"

definition generateBaseRisks :: "profile \<Rightarrow> riskRecord list" where
  "generateBaseRisks p = select_top 15 (pool (risk_pool p))"

subsection \<open>The version of \<open>unnamed/part_000\<close> (top 12)\<close>

text \<open>\<open>a || b\<close> and \<open>a && b\<close> where an operand may throw: the right operand is
  evaluated only when the left one does not decide.\<close>

definition or_else :: "error + bool \<Rightarrow> error + bool \<Rightarrow> error + bool" where
  "or_else a b = (case a of Inl e \<Rightarrow> Inl e | Inr x \<Rightarrow> if x then Inr True else b)"

definition and_then :: "error + bool \<Rightarrow> error + bool \<Rightarrow> error + bool" where
  "and_then a b = (case a of Inl e \<Rightarrow> Inl e | Inr x \<Rightarrow> if x then b else Inr False)"

text \<open>The pool as it is when the sort begins, or the TypeError of a guard that reads
  \<open>profile.dataTypes.includes\<close> on a profile without \<open>dataTypes\<close>.\<close>

definition risk_pool_part000 :: "profile \<Rightarrow> error + pool_state" where
  "risk_pool_part000 p =
     (let st = \<lparr>pool = [], idCounter = 1\<rparr>;
          st = exec_if (remote p = Some ''yes'')
            (addToPool_part000 ''Remote Endpoint Compromise''
               (if mfa p = Some ''mandatory'' then 2 else 4) 4
               ''Enforce Endpoint Encryption, VPN, and Mandatory MFA'') st;
          st = exec_if (hosting p = Some ''cloud'')
            (addToPool_part000 ''Cloud Misconfiguration''
               (if cloudDataClassification p = Some ''yes'' then 2 else 4) 5
               ''Enable Cloud Security Posture Management (CSPM), Regular Audits'') st;
          st = exec_if (vendors p = Some ''yes'' \<or> num_gt (criticalVendorCount p) 0)
            (addToPool_part000 ''Supply Chain / Third-Party Breach''
               (if vendorRiskAssessments p = Some ''yes'' then 2 else 4) 4
               ''Vendor Risk Assessment Program, Least Privilege Access, SLAs'') st
      in case or_else (includes_js (dataTypes p) ''pii'')
                (or_else (includes_js (dataTypes p) ''financial'')
                         (includes_js (dataTypes p) ''health'')) of
           Inl e \<Rightarrow> Inl e
         | Inr sensitive \<Rightarrow>
     (let st = exec_if sensitive
            (addToPool_part000 ''Data Breach / Leakage (Sensitive Data)''
               (if dataEncryptionAtRest p = Some ''yes'' \<and> dataEncryptionInTransit p = Some ''yes''
                then 2 else 4) 5
               ''Data Loss Prevention (DLP), Encryption at Rest/Transit, Access Logging'') st;
          st = (if backupFrequency p = Some ''none''
                then addToPool_part000 ''Ransomware Attack with Data Loss'' 5 6
                       ''Implement Backup Strategy, Offline Backups, Incident Response Plan'' st
                else addToPool_part000 ''Ransomware Attack (Recoverable)'' 3 4
                       ''Regular Backups, EDR, Incident Response Plan'' st);
          st = exec_if (mfa p \<noteq> Some ''mandatory'')
            (addToPool_part000 ''Credential Stuffing / Brute Force'' 5 4
               ''Mandatory MFA, Strong Password Policies, Account Lockout'') st;
          st = exec_if (logging p \<noteq> Some ''advanced'')
            (addToPool_part000 ''Failure to Detect Intrusions'' 4 4
               ''Centralized Logging, SIEM, Real-time Alerting'') st
      in case and_then (Inr (compliance_status p = Some ''none''))
                (or_else (includes_js (dataTypes p) ''pii'')
                         (Inr (industry p = Some ''healthcare''))) of
           Inl e \<Rightarrow> Inl e
         | Inr exposed \<Rightarrow>
     (let st = exec_if exposed
            (addToPool_part000 ''Regulatory Non-Compliance Fines'' 5 5
               ''Compliance Audits, Legal Counsel, Policy Management'') st;
          st = addToPool_part000 ''Insider Threat / Privilege Abuse''
                 (if privilegedAccessManagement p = Some ''yes'' then 2 else 3) 3
                 ''RBAC, Privileged Access Management, Audit Logging'' st;
          st = addToPool_part000 ''Social Engineering & Phishing Attacks'' 4 4
                 ''Security Awareness Training, Phishing Simulations, Email Filtering'' st;
          st = addToPool_part000 ''Exploitation of Unpatched Vulnerabilities'' 3 4
                 ''Automated Patch Management, Regular Vulnerability Scanning'' st;
          st = addToPool_part000 ''Unsanctioned Shadow IT Usage'' 3 2
                 ''Cloud Access Security Broker (CASB), Software Asset Management'' st;
          st = addToPool_part000 ''Web Application Attacks (SQLi, XSS)'' 3 4
                 ''Web Application Firewall (WAF), Secure Code Review, DAST/SAST'' st;
          st = addToPool_part000 ''Denial of Service (DDoS) Attack'' 2 3
                 ''DDoS Protection Services (e.g., Cloudflare), Redundancy'' st;
          st = addToPool_part000 ''Mobile Device Compromise (BYOD)'' 3 3
                 ''Mobile Device Management (MDM), Containerization, Remote Wipe'' st;
          st = addToPool_part000 ''Insecure API Endpoints'' 3 4
                 ''API Gateway, Rate Limiting, API Authentication'' st;
          st = addToPool_part000 ''Data Integrity Corruption'' 1 5
                 ''File Integrity Monitoring (FIM), Checksums, Backup Validation'' st;
          st = addToPool_part000 ''Physical Security Breach'' 2 3
                 ''Access Cards, CCTV, Visitor Management'' st;
          st = addToPool_part000 ''Reputational Damage from Incident'' 3 5
                 ''Crisis Communication Plan, PR Strategy'' st;
          st = addToPool_part000 ''Theft of Intellectual Property'' 2 5
                 ''DLP, Access Control, NDA, DRM'' st;
          st = addToPool_part000 ''Business Interruption / Failure'' 2 6
                 ''Business Continuity Plan (BCP), Disaster Recovery (DR) Drills'' st;
          st = addToPool_part000 ''Insecure Default Configurations'' 3 4
                 ''Hardening Benchmarks (CIS), Automated Config Management'' st;
          st = addToPool_part000 ''Network Eavesdropping / MitM''
                 (if dataEncryptionInTransit p = Some ''yes'' then 1 else 2) 3
                 ''End-to-End Encryption, VPN, Mutual TLS'' st;
          st = addToPool_part000 ''Inadequate Employee Offboarding'' 3 3
                 ''Automated Account Deprovisioning, Exit Interviews'' st;
          st = addToPool_part000 ''Data Leakage via AI/LLM Tools'' 4 4
                 ''AI Usage Policy, Enterprise AI Gateways'' st;
          st = addToPool_part000 ''Brand Impersonation on Social Media'' 3 2
                 ''Social Media Monitoring, Verified Profiles'' st
      in Inr st)))"

definition generateBaseRisks_part000 :: "profile \<Rightarrow> error + riskRecord list" where
  "generateBaseRisks_part000 p =
     (case risk_pool_part000 p of
        Inl e \<Rightarrow> Inl e
      | Inr st \<Rightarrow> Inr (select_top 12 (pool st)))"

section \<open>The report assembler of \<open>src/logic/grcEngine.js\<close>\<close>

text \<open>
  The four functions of the AI engine are asynchronous calls on a language model; each
  call either yields a value or is rejected with an error. They are a parameter of the
  model: a record of four functions giving the outcome of each call. The objects of an
  AI answer have no shape the code fixes (\<open>ai_object\<close>). A recommendation is either such
  an object or the record that the fallback builds; \<open>result.recommendations\<close> may be
  absent. \<open>getBenchmarkComparison\<close> belongs to a module that is not part of the
  sources at hand and is a parameter as well.
\<close>

typedecl ai_object

datatype recommendation =
    AI_recommendation ai_object
  | Fallback_recommendation (rec_id: int) (rec_title: string) (rec_priority: string)
      (rec_steps: "string list")

record quantifiedRisk =
  q_risk :: string
  sle :: rat
  aro :: rat
  ale :: rat
  mitigationCost :: rat
  roi :: rat

record ai_engine =
  generateExecutiveSummary :: "profile \<Rightarrow> maturity \<Rightarrow> error + string"
  generateRecommendations :: "profile \<Rightarrow> gap list \<Rightarrow> maturity \<Rightarrow> error + recommendation list option"
  generateComplianceRoadmap :: "profile \<Rightarrow> error + string"
  quantifyRisks :: "profile \<Rightarrow> riskRecord list \<Rightarrow> error + quantifiedRisk list"

text \<open>A value in a template literal: \<open>undefined\<close> prints as \<open>undefined\<close>.\<close>

definition template_value :: "string option \<Rightarrow> string" where
  "template_value v = (case v of None \<Rightarrow> ''undefined'' | Some s \<Rightarrow> s)"

definition newline :: string where
  "newline = [CHR 0x0A]"

definition generateFallbackSummary :: "profile \<Rightarrow> maturity \<Rightarrow> gap list \<Rightarrow> string" where
  "generateFallbackSummary p m gs =
     ''# Executive Summary for '' @ template_value (name p) @ newline @ newline
     @ ''Overall Score: **'' @ String_of_int (overall m) @ ''%**'' @ newline @ newline
     @ ''Identified '' @ String_of_int (int (length gs))
     @ '' key gaps. Recommendations follow below.''"

definition generateFallbackRecommendations :: "gap list \<Rightarrow> recommendation list" where
  "generateFallbackRecommendations gs =
     map (\<lambda>(i, g). Fallback_recommendation (int i + 1)
            (''Fix '' @ category g @ '' Issue'') (severity g) [''Investigate'', ''Remediate''])
         (enumerate 0 (take 10 gs))"

definition generateFallbackComplianceRoadmap :: "profile \<Rightarrow> string" where
  "generateFallbackComplianceRoadmap p =
     ''# Compliance Roadmap'' @ newline @ newline
     @ ''Focus on standard frameworks relevant to '' @ template_value (industry p) @ ''.''"

record methodologyOverview =
  m_title :: string
  m_executiveSummary :: string
  m_framework :: string
  m_principles :: "(string \<times> string) list"
  m_controls :: "string list"

definition generateMethodologyOverview :: methodologyOverview where
  "generateMethodologyOverview = \<lparr>
     m_title = ''Six-Pillar Security Framework'',
     m_executiveSummary = ''This assessment evaluates the organization's security posture across six critical dimensions: Governance, Risk, Compliance, Technical Security, Application Security, and Operational Security. It utilizes industry-standard weighting and scoring to provide an actionable roadmap.'',
     m_framework = ''Standardized GRC Maturity Model'',
     m_principles =
       [(''Holistic'', ''Covering people, process, and technology.''),
        (''Risk-Based'', ''Prioritizing remediation based on potential business impact.''),
        (''Defensible'', ''Aligning with recognized standards like NIST CSF and ISO 27001.'')],
     m_controls = [''Strategic'', ''Tactical'', ''Operational'']\<rparr>"

record 'b report =
  executiveSummary :: string
  recommendations :: "recommendation list"
  complianceRoadmap :: string
  r_maturity :: maturity
  benchmarks :: 'b
  r_gaps :: "gap list"
  risks :: "riskRecord list"
  quantifiedRisks :: "quantifiedRisk list"
  methodology :: methodologyOverview
  sections :: "dim \<Rightarrow> int \<times> string"

text \<open>
  \<open>generateReport\<close>. The scores, the gaps and the base risks are computed first, outside
  any \<open>try\<close>: an error there leaves the function. Each AI call sits in its own
  \<open>try\<close>, whose \<open>catch\<close> substitutes the fallback.
\<close>

definition generateReport ::
  "ai_engine \<Rightarrow> (profile \<Rightarrow> int \<Rightarrow> 'b) \<Rightarrow> profile \<Rightarrow> error + 'b report" where
  "generateReport ai getBenchmarkComparison p =
     (case calculateMaturityScore p of
        Inl e \<Rightarrow> Inl e
      | Inr m \<Rightarrow>
         (let bench = getBenchmarkComparison p (overall m);
              gs = identifyGaps p m;
              baseRisks = generateBaseRisks p;
              summary = (case generateExecutiveSummary ai p m of
                           Inr text \<Rightarrow> text
                         | Inl e \<Rightarrow> generateFallbackSummary p m gs);
              aiRecommendations = (case generateRecommendations ai p gs m of
                           Inr result \<Rightarrow> (case result of Some rs \<Rightarrow> rs | None \<Rightarrow> [])
                         | Inl e \<Rightarrow> generateFallbackRecommendations gs);
              roadmap = (case generateComplianceRoadmap ai p of
                           Inr text \<Rightarrow> text
                         | Inl e \<Rightarrow> generateFallbackComplianceRoadmap p);
              quantified = (case quantifyRisks ai p baseRisks of
                           Inr qs \<Rightarrow> qs
                         | Inl e \<Rightarrow> map (\<lambda>r. \<lparr>q_risk = risk_name r, sle = 0, aro = 0, ale = 0,
                                               mitigationCost = 0, roi = 0\<rparr>) baseRisks)
          in Inr \<lparr>executiveSummary = summary,
                  recommendations = aiRecommendations,
                  complianceRoadmap = roadmap,
                  r_maturity = m,
                  benchmarks = bench,
                  r_gaps = gs,
                  risks = baseRisks,
                  quantifiedRisks = quantified,
                  methodology = generateMethodologyOverview,
                  sections = (\<lambda>d. (case d of
                       Governance \<Rightarrow> governance m
                     | Risk \<Rightarrow> risk m
                     | Compliance \<Rightarrow> compliance m
                     | Technical \<Rightarrow> technical m
                     | Application \<Rightarrow> application m
                     | Operational \<Rightarrow> operational m, labels m d))\<rparr>))"

text \<open>An AI engine whose every call is rejected.\<close>

definition always_fails :: "ai_engine \<Rightarrow> bool" where
  "always_fails ai =
     ((\<forall>p m. isl (generateExecutiveSummary ai p m)) \<and>
      (\<forall>p gs m. isl (generateRecommendations ai p gs m)) \<and>
      (\<forall>p. isl (generateComplianceRoadmap ai p)) \<and>
      (\<forall>p rs. isl (quantifyRisks ai p rs)))"

definition failing_engine :: ai_engine where
  "failing_engine = \<lparr>
     generateExecutiveSummary = (\<lambda>p m. Inl GenerationFailed),
     generateRecommendations = (\<lambda>p gs m. Inl GenerationFailed),
     generateComplianceRoadmap = (\<lambda>p. Inl GenerationFailed),
     quantifyRisks = (\<lambda>p rs. Inl GenerationFailed)\<rparr>"

subsection \<open>The gap rules in the words of the specification\<close>

text \<open>
  The specification describes the gap identifier as a rule set: each rule is a guard
  paired with a fixed category, severity and description, and the output lists the
  gaps of the rules whose guard holds, in the order in which the rules are declared.
\<close>

definition spec_gap_rules :: "profile \<Rightarrow> maturity \<Rightarrow> (bool \<times> gap) list" where
  "spec_gap_rules p scores =
     [(governance scores < 60,
       \<lparr>category = ''Governance'', severity = ''High'',
        description = ''Lack of formal security leadership and documented policies.''\<rparr>),
      (backupFrequency p = Some ''none'',
       \<lparr>category = ''Risk'', severity = ''Critical'',
        description = ''No backup strategy found'' @ [CHR 0xE2, CHR 0x80, CHR 0x94]
                      @ ''data loss is imminent in an attack.''\<rparr>),
      (bcpDocumented p \<noteq> Some ''yes'' \<and> risk scores < 50,
       \<lparr>category = ''Risk'', severity = ''Medium'',
        description = ''Undefined Business Continuity Plan.''\<rparr>),
      (compliance scores < 50 \<and> (industry p = Some ''fintech'' \<or> industry p = Some ''healthcare''),
       \<lparr>category = ''Compliance'', severity = ''High'',
        description = ''Compliance posture is weak for a regulated industry.''\<rparr>),
      (vulnerabilityScanning p = Some ''never'',
       \<lparr>category = ''Technical'', severity = ''High'',
        description = ''No visibility into system vulnerabilities.''\<rparr>),
      (mfa p = Some ''none'',
       \<lparr>category = ''Application'', severity = ''Critical'',
        description = ''Multi-Factor Authentication (MFA) is not enabled.''\<rparr>),
      (encryption p = Some ''no'',
       \<lparr>category = ''Application'', severity = ''High'',
        description = ''Sensitive data is not encrypted.''\<rparr>),
      (incidentResponsePlan p \<noteq> Some ''yes'',
       \<lparr>category = ''Operational'', severity = ''High'',
        description = ''No Incident Response Plan to handle breaches.''\<rparr>),
      (securityTraining p \<noteq> Some ''regular'',
       \<lparr>category = ''Operational'', severity = ''Medium'',
        description = ''Employees are not trained on security risks.''\<rparr>)]"

subsection \<open>Properties of risk records in the words of the specification\<close>

text \<open>A record whose score is the product of its two ordinal components.\<close>

definition product_score :: "riskRecord \<Rightarrow> bool" where
  "product_score r = (score r = likelihoodScore r * consequenceScore r)"

text \<open>A list that holds a record of the given name, likelihood, consequence and score.\<close>

definition has_risk :: "string \<Rightarrow> int \<Rightarrow> int \<Rightarrow> int \<Rightarrow> riskRecord list \<Rightarrow> bool" where
  "has_risk nm l c s rs =
     list_ex (\<lambda>r. risk_name r = nm \<and> likelihoodScore r = l \<and> consequenceScore r = c \<and> score r = s) rs"

subsection \<open>The aggregation in the words of the specification\<close>

text \<open>
  The specification describes the overall score as the sum over the six dimensions of
  score times the selected industry's weight (the uniform default profile for an
  industry that is no key of the table), less 5 when there is no MFA and less 5 when
  there are no backups, clamped and rounded. These definitions follow that wording,
  once in the engine's double arithmetic (a sum is taken left to right) and once in
  exact arithmetic; the theorems compare them with \<open>calculateMaturityScore\<close>.
\<close>

definition dims_list :: "dim list" where
  "dims_list = [Governance, Risk, Compliance, Technical, Application, Operational]"

definition dimension_score :: "profile \<Rightarrow> dim \<Rightarrow> int" where
  "dimension_score p d = (case d of
       Governance \<Rightarrow> calculateGovernanceScore p
     | Risk \<Rightarrow> calculateRiskScore p
     | Compliance \<Rightarrow> calculateComplianceScore p
     | Technical \<Rightarrow> calculateTechnicalScore p
     | Application \<Rightarrow> calculateApplicationScore p
     | Operational \<Rightarrow> calculateOperationalScore p)"

definition rounded_score :: "maturity \<Rightarrow> dim \<Rightarrow> int" where
  "rounded_score m d = (case d of
       Governance \<Rightarrow> governance m
     | Risk \<Rightarrow> risk m
     | Compliance \<Rightarrow> compliance m
     | Technical \<Rightarrow> technical m
     | Application \<Rightarrow> application m
     | Operational \<Rightarrow> operational m)"

definition spec_selected_config :: "profile \<Rightarrow> config" where
  "spec_selected_config p =
     (case map_of industry_entries (property_key (industry p)) of
        Some c \<Rightarrow> c
      | None \<Rightarrow> default_config)"

definition spec_weight :: "config \<Rightarrow> dim \<Rightarrow> rat" where
  "spec_weight c d = (case dimensions c d of Some e \<Rightarrow> weight e | None \<Rightarrow> 0)"

fun js_sum :: "rat list \<Rightarrow> rat" where
  "js_sum [] = 0"
| "js_sum (x # xs) = foldl js_add x xs"

definition js_weighted_sum :: "(dim \<Rightarrow> int) \<Rightarrow> (dim \<Rightarrow> rat) \<Rightarrow> rat" where
  "js_weighted_sum s w = js_sum (map (\<lambda>d. js_mul (of_int (s d)) (w d)) dims_list)"

definition js_less_penalties :: "profile \<Rightarrow> rat \<Rightarrow> rat" where
  "js_less_penalties p x =
     (let x = (if mfa p = Some ''none'' then js_sub x 5 else x)
      in if backupFrequency p = Some ''none'' then js_sub x 5 else x)"

definition spec_weighted_sum :: "(dim \<Rightarrow> int) \<Rightarrow> (dim \<Rightarrow> rat) \<Rightarrow> rat" where
  "spec_weighted_sum s w = (\<Sum>d\<leftarrow>dims_list. of_int (s d) * w d)"

definition spec_global_penalty :: "profile \<Rightarrow> rat" where
  "spec_global_penalty p =
     (if mfa p = Some ''none'' then 5 else 0) + (if backupFrequency p = Some ''none'' then 5 else 0)"

text \<open>
  The weight table with the penalty and bonus tables of every entry replaced by
  arbitrary ones; the dimension entries stay. It serves to state that
  \<open>calculateMaturityScore\<close> does not read those tables.
\<close>

definition replace_tables ::
  "(string \<Rightarrow> (string \<times> int) list) \<Rightarrow> (string \<Rightarrow> (string \<times> int) list) \<Rightarrow> string \<Rightarrow> config property" where
  "replace_tables ps bs k =
     (case INDUSTRY_WEIGHTS k of
        Own c \<Rightarrow> Own (c\<lparr>penalties := ps k, bonuses := bs k\<rparr>)
      | Inherited \<Rightarrow> Inherited
      | Missing \<Rightarrow> Missing)"

subsection \<open>The profile the assessment form starts from\<close>

text \<open>The initial \<open>formData\<close> of the assessment page (its \<open>region\<close> and \<open>size\<close> are
  read by no function modelled here).\<close>

definition form_default :: profile where
  "form_default = empty_profile\<lparr>
     name := Some [], industry := Some ''saas'',
     policiesDocumented := Some ''none'', cisoPresent := Some ''no'',
     securityTeamSize := Some 0, managementReview := Some ''never'',
     riskAssessmentFreq := Some ''never'', bcpDocumented := Some ''no'',
     backupFrequency := Some ''none'', cyberInsurance := Some ''no'',
     complianceFrameworks := Some [], privacyProgram := Some ''no'', lastAuditDate := Some [],
     firewallEnabled := Some ''yes'', networkSegmentation := Some ''no'',
     antivirus := Some ''yes'', edr := Some ''no'',
     vulnerabilityScanning := Some ''never'', patchingAutomated := Some ''no'',
     mfa := Some ''none'', sso := Some ''no'', encryption := Some ''no'', codeReview := Some ''no'',
     incidentResponsePlan := Some ''no'', securityTraining := Some ''none'',
     vendorRiskProgram := Some ''no'',
     remote := Some ''yes'', hosting := Some ''cloud'', criticalVendorCount := Some 5\<rparr>"

subsection \<open>The profile of scenario B\<close>

text \<open>The profile of the specification's scenario B: an object with the four fields
  \<open>mfa\<close>, \<open>backupFrequency\<close>, \<open>remote\<close> and \<open>hosting\<close> and no other.\<close>

definition scenario_B :: profile where
  "scenario_B = empty_profile\<lparr>
     mfa := Some ''none'', backupFrequency := Some ''none'',
     remote := Some ''yes'', hosting := Some ''cloud''\<rparr>"

section \<open>Properties of the scoring framework\<close>

subsection \<open>Rounding\<close>

lemma Math_round_of_int: "Math_round (of_int n) = n"
  unfolding Math_round_def by linarith

lemma Math_round_range: "0 \<le> x \<Longrightarrow> x \<le> 100 \<Longrightarrow> 0 \<le> Math_round x \<and> Math_round x \<le> 100"
  unfolding Math_round_def by (simp add: floor_le_iff le_floor_iff)

lemma Math_round_close: "\<bar>of_int (Math_round x) - x\<bar> \<le> 1 / 2"
  unfolding Math_round_def by linarith

lemma clamp_range: "0 \<le> clamp v \<and> clamp v \<le> 100"
  by (simp add: clamp_def)

lemma clamp_bounds:
  "lo \<le> x \<Longrightarrow> 0 \<le> lo \<Longrightarrow> lo \<le> 100 \<Longrightarrow> lo \<le> clamp x \<and> clamp x \<le> (100::int)"
  by (simp add: clamp_def)

lemma clamp_upper: "x \<le> hi \<Longrightarrow> 0 \<le> hi \<Longrightarrow> clamp x \<le> (hi::int)"
  by (simp add: clamp_def)

subsection \<open>Ranges of the dimension scores\<close>

lemma gov_range: "35 \<le> calculateGovernanceScore p \<and> calculateGovernanceScore p \<le> 100"
  unfolding calculateGovernanceScore_def Let_def by (rule clamp_bounds) simp_all
lemma risk_range: "0 \<le> calculateRiskScore p \<and> calculateRiskScore p \<le> 100"
  unfolding calculateRiskScore_def Let_def by (rule clamp_range)
lemma comp_range: "50 \<le> calculateComplianceScore p \<and> calculateComplianceScore p \<le> 100"
  unfolding calculateComplianceScore_def Let_def by (rule clamp_bounds) simp_all
lemma tech_range: "35 \<le> calculateTechnicalScore p \<and> calculateTechnicalScore p \<le> 100"
  unfolding calculateTechnicalScore_def Let_def by (rule clamp_bounds) simp_all
lemma app_range: "0 \<le> calculateApplicationScore p \<and> calculateApplicationScore p \<le> 100"
  unfolding calculateApplicationScore_def Let_def by (rule clamp_range)
lemma ops_range: "25 \<le> calculateOperationalScore p \<and> calculateOperationalScore p \<le> 100"
  unfolding calculateOperationalScore_def Let_def by (rule clamp_bounds) simp_all
lemma ops_upper: "calculateOperationalScore p \<le> 95"
  unfolding calculateOperationalScore_def Let_def by (rule clamp_upper) simp_all

subsection \<open>Which configuration is selected\<close>

lemma INDUSTRY_WEIGHTS_cases:
  "INDUSTRY_WEIGHTS k =
     (if k = ''fintech'' then Own fintech_config
      else if k = ''healthcare'' then Own healthcare_config
      else if k = ''saas'' then Own saas_config
      else if k = ''default'' then Own default_config
      else if k \<in> set object_prototype_keys then Inherited else Missing)"
  by (simp add: INDUSTRY_WEIGHTS_def object_literal_def industry_entries_def)

lemma spec_selected_config_cases:
  "spec_selected_config p =
     (let k = property_key (industry p) in
      if k = ''fintech'' then fintech_config
      else if k = ''healthcare'' then healthcare_config
      else if k = ''saas'' then saas_config
      else default_config)"
  by (simp add: spec_selected_config_def industry_entries_def Let_def)

lemma to_double_nonzero: "to_double (15 / 100) \<noteq> 0" "to_double (10 / 100) \<noteq> 0"
  "to_double (25 / 100) \<noteq> 0" "to_double (30 / 100) \<noteq> 0" "to_double (20 / 100) \<noteq> 0"
  "to_double (166 / 1000) \<noteq> 0"
  by code_simp+


subsection \<open>The error of double arithmetic\<close>

lemma round_ties_even_close: "\<bar>of_int (round_ties_even y) - y\<bar> \<le> 1 / 2"
proof -
  have "of_int \<lfloor>y\<rfloor> \<le> y" "y < of_int \<lfloor>y\<rfloor> + 1" by linarith+
  then show ?thesis
    unfolding round_ties_even_def Let_def
    by (simp split: if_splits)
qed

lemma binade_le:
  assumes "x \<noteq> 0"
  shows "2 powi binade x \<le> \<bar>x\<bar>"
proof -
  obtain a b where q: "quotient_of \<bar>x\<bar> = (a, b)" by (cases "quotient_of \<bar>x\<bar>")
  have b: "b > 0" using quotient_of_denom_pos[OF q] .
  have x: "\<bar>x\<bar> = of_int a / of_int b" using quotient_of_div[OF q] .
  have "0 < \<bar>x\<bar>" using assms by simp
  then have "0 < (of_int a :: rat) / of_int b" by (simp only: x)
  then have "0 < (of_int a :: rat)" using b by (simp add: zero_less_divide_iff)
  then have a: "a > 0" by simp
  let ?e = "bitlen a - bitlen b"
  have "(2::int) ^ nat (bitlen a - 1) \<le> a" using bitlen_bounds[OF a] by blast
  then have "(of_int ((2::int) ^ nat (bitlen a - 1)) :: rat) \<le> of_int a" by (simp only: of_int_le_iff)
  then have la: "(2::rat) ^ nat (bitlen a - 1) \<le> of_int a" by simp
  have "b < (2::int) ^ nat (bitlen b)" using bitlen_bounds[OF b] by blast
  then have "(of_int b :: rat) < of_int ((2::int) ^ nat (bitlen b))" by (simp only: of_int_less_iff)
  then have lb: "of_int b < (2::rat) ^ nat (bitlen b)" by simp
  have ba: "bitlen a \<ge> 1" and bb: "bitlen b \<ge> 1"
    using a b by (auto simp: bitlen_alt_def)
  have "(2::rat) powi (?e - 1) = 2 powi (bitlen a - 1) / 2 powi (bitlen b)"
    by (simp add: power_int_diff)
  also have "\<dots> = 2 ^ nat (bitlen a - 1) / 2 ^ nat (bitlen b)"
    using ba bb by (simp add: power_int_def)
  also have "\<dots> \<le> of_int a / of_int b"
    using la lb b a by (intro frac_le) auto
  finally have low: "(2::rat) powi (?e - 1) \<le> \<bar>x\<bar>" by (simp add: x)
  show ?thesis
    unfolding binade_def q using low by (simp add: Let_def)
qed

lemma to_double_error: "\<bar>to_double x - x\<bar> \<le> \<bar>x\<bar> / 2 ^ 53"
proof (cases "x = 0")
  case True
  then show ?thesis by (simp add: to_double_def)
next
  case False
  define u :: rat where "u = 2 powi (binade x - 52)"
  have u: "u > 0" by (simp add: u_def)
  have td: "to_double x = of_int (round_ties_even (x / u)) * u"
    using False by (simp add: to_double_def u_def Let_def)
  have "x = (x / u) * u" using u by simp
  then have "to_double x - x = (of_int (round_ties_even (x / u)) - x / u) * u"
    unfolding td by (metis left_diff_distrib)
  then have "\<bar>to_double x - x\<bar> = \<bar>of_int (round_ties_even (x / u)) - x / u\<bar> * u"
    using u by (simp add: abs_mult)
  also have "\<dots> \<le> (1 / 2) * u"
    using round_ties_even_close[of "x / u"] u by (intro mult_right_mono) auto
  also have "\<dots> = 2 powi binade x / 2 ^ 53"
    by (simp add: u_def power_int_diff)
  also have "\<dots> \<le> \<bar>x\<bar> / 2 ^ 53"
    using binade_le[OF False] by (intro divide_right_mono) auto
  finally show ?thesis .
qed

text \<open>One rounding step adds at most \<open>1000 / 2^53\<close> to the error of an approximation
  of a quantity below 999.\<close>

lemma to_double_step:
  assumes "\<bar>a - X\<bar> \<le> d" "d \<le> 1" "\<bar>X\<bar> \<le> 999"
  shows "\<bar>to_double a - X\<bar> \<le> d + 1000 / 2 ^ 53"
proof -
  have "\<bar>a\<bar> \<le> 1000" using assms by linarith
  then have "\<bar>a\<bar> / 2 ^ 53 \<le> 1000 / 2 ^ 53" by (intro divide_right_mono) auto
  then have "\<bar>to_double a - a\<bar> \<le> 1000 / 2 ^ 53"
    using to_double_error[of a] by linarith
  then show ?thesis using assms(1) by linarith
qed

lemma weight_literal_bounds:
  assumes "0 \<le> w" "w \<le> 1 / 2"
  shows "w - w / 2 ^ 53 \<le> to_double w \<and> to_double w \<le> w + w / 2 ^ 53
       \<and> 0 \<le> to_double w \<and> to_double w \<le> 1"
proof -
  have e: "\<bar>to_double w - w\<bar> \<le> w / 2 ^ 53" using to_double_error[of w] assms by simp
  have "w / 2 ^ 53 \<le> w" using assms by (simp add: field_simps)
  with e assms show ?thesis by linarith
qed


lemma js_weighted_sum_expand:
  "js_weighted_sum s w =
     js_add (js_add (js_add (js_add (js_add
       (js_mul (of_int (s Governance)) (w Governance))
       (js_mul (of_int (s Risk)) (w Risk)))
       (js_mul (of_int (s Compliance)) (w Compliance)))
       (js_mul (of_int (s Technical)) (w Technical)))
       (js_mul (of_int (s Application)) (w Application)))
       (js_mul (of_int (s Operational)) (w Operational))"
  by (simp add: js_weighted_sum_def dims_list_def)

lemma spec_weighted_sum_expand:
  "spec_weighted_sum s w =
     of_int (s Governance) * w Governance + of_int (s Risk) * w Risk
   + of_int (s Compliance) * w Compliance + of_int (s Technical) * w Technical
   + of_int (s Application) * w Application + of_int (s Operational) * w Operational"
  by (simp add: spec_weighted_sum_def dims_list_def)

lemma term_bounds:
  assumes "0 \<le> (n::int)" "n \<le> 100" "0 \<le> (w::rat)" "w \<le> 1"
  shows "0 \<le> of_int n * w \<and> of_int n * w \<le> 100"
proof -
  have "(of_int n :: rat) \<le> 100" "0 \<le> (of_int n :: rat)" using assms by simp_all
  then have "of_int n * w \<le> 100 * 1" using assms by (intro mult_mono) auto
  moreover have "0 \<le> of_int n * w" using assms by simp
  ultimately show ?thesis by simp
qed

lemma abs_add_step:
  "\<bar>a - X\<bar> \<le> d \<Longrightarrow> \<bar>b - Y\<bar> \<le> e \<Longrightarrow> \<bar>(a + b) - (X + Y)\<bar> \<le> d + (e::rat)"
  by linarith

lemma js_add_step:
  assumes "\<bar>a - X\<bar> \<le> d" "\<bar>b - Y\<bar> \<le> 1000 / 2 ^ 53" "d \<le> 1 / 2" "0 \<le> X" "X \<le> 500"
    "0 \<le> Y" "Y \<le> 100"
  shows "\<bar>js_add a b - (X + Y)\<bar> \<le> d + 2000 / 2 ^ 53"
proof -
  have 1: "\<bar>(a + b) - (X + Y)\<bar> \<le> d + 1000 / 2 ^ 53"
    using assms(1,2) by (rule abs_add_step)
  have 2: "d + 1000 / 2 ^ 53 \<le> 1" using assms(3) by simp
  have 3: "\<bar>X + Y\<bar> \<le> 999" using assms(4-7) by linarith
  show ?thesis
    unfolding js_add_def using to_double_step[OF 1 2 3] by simp
qed

lemma js_mul_step:
  assumes "0 \<le> (n::int)" "n \<le> 100" "0 \<le> (w::rat)" "w \<le> 1"
  shows "\<bar>js_mul (of_int n) w - of_int n * w\<bar> \<le> 1000 / 2 ^ 53"
proof -
  have b: "0 \<le> of_int n * w \<and> of_int n * w \<le> 100" using assms by (rule term_bounds)
  have 1: "\<bar>of_int n * w - of_int n * w\<bar> \<le> 0" by simp
  have 3: "\<bar>of_int n * w\<bar> \<le> 999" using b by linarith
  show ?thesis unfolding js_mul_def using to_double_step[OF 1 _ 3] by simp
qed

lemma js_weighted_sum_error:
  assumes s: "\<And>d. 0 \<le> s d \<and> s d \<le> 100" and w: "\<And>d. 0 \<le> w d \<and> w d \<le> 1"
  shows "\<bar>js_weighted_sum s w - spec_weighted_sum s w\<bar> \<le> 11000 / 2 ^ 53"
proof -
  define xg where "xg = of_int (s Governance) * w Governance"
  define xr where "xr = of_int (s Risk) * w Risk"
  define xc where "xc = of_int (s Compliance) * w Compliance"
  define xt where "xt = of_int (s Technical) * w Technical"
  define xa where "xa = of_int (s Application) * w Application"
  define xo where "xo = of_int (s Operational) * w Operational"
  define pg where "pg = js_mul (of_int (s Governance)) (w Governance)"
  define pr where "pr = js_mul (of_int (s Risk)) (w Risk)"
  define pc where "pc = js_mul (of_int (s Compliance)) (w Compliance)"
  define pt where "pt = js_mul (of_int (s Technical)) (w Technical)"
  define pa where "pa = js_mul (of_int (s Application)) (w Application)"
  define po where "po = js_mul (of_int (s Operational)) (w Operational)"
  have bg: "0 \<le> xg" "xg \<le> 100" unfolding xg_def using term_bounds[of "s Governance" "w Governance"] s w by simp_all
  have br: "0 \<le> xr" "xr \<le> 100" unfolding xr_def using term_bounds[of "s Risk" "w Risk"] s w by simp_all
  have bc: "0 \<le> xc" "xc \<le> 100" unfolding xc_def using term_bounds[of "s Compliance" "w Compliance"] s w by simp_all
  have bt: "0 \<le> xt" "xt \<le> 100" unfolding xt_def using term_bounds[of "s Technical" "w Technical"] s w by simp_all
  have ba: "0 \<le> xa" "xa \<le> 100" unfolding xa_def using term_bounds[of "s Application" "w Application"] s w by simp_all
  have bo: "0 \<le> xo" "xo \<le> 100" unfolding xo_def using term_bounds[of "s Operational" "w Operational"] s w by simp_all
  have eg: "\<bar>pg - xg\<bar> \<le> 1000 / 2 ^ 53" unfolding pg_def xg_def using s w by (intro js_mul_step) simp_all
  have er: "\<bar>pr - xr\<bar> \<le> 1000 / 2 ^ 53" unfolding pr_def xr_def using s w by (intro js_mul_step) simp_all
  have ec: "\<bar>pc - xc\<bar> \<le> 1000 / 2 ^ 53" unfolding pc_def xc_def using s w by (intro js_mul_step) simp_all
  have et: "\<bar>pt - xt\<bar> \<le> 1000 / 2 ^ 53" unfolding pt_def xt_def using s w by (intro js_mul_step) simp_all
  have ea: "\<bar>pa - xa\<bar> \<le> 1000 / 2 ^ 53" unfolding pa_def xa_def using s w by (intro js_mul_step) simp_all
  have eo: "\<bar>po - xo\<bar> \<le> 1000 / 2 ^ 53" unfolding po_def xo_def using s w by (intro js_mul_step) simp_all
  have e2: "\<bar>js_add pg pr - (xg + xr)\<bar> \<le> 1000 / 2 ^ 53 + 2000 / 2 ^ 53"
    using eg er _ bg(1) _ br by (rule js_add_step) (use bg in simp_all)
  have e3: "\<bar>js_add (js_add pg pr) pc - (xg + xr + xc)\<bar> \<le> 1000 / 2 ^ 53 + 2000 / 2 ^ 53 + 2000 / 2 ^ 53"
    using e2 ec _ _ _ bc by (rule js_add_step) (use bg br in simp_all)
  have e4: "\<bar>js_add (js_add (js_add pg pr) pc) pt - (xg + xr + xc + xt)\<bar>
      \<le> 1000 / 2 ^ 53 + 2000 / 2 ^ 53 + 2000 / 2 ^ 53 + 2000 / 2 ^ 53"
    using e3 et _ _ _ bt by (rule js_add_step) (use bg br bc in simp_all)
  have e5: "\<bar>js_add (js_add (js_add (js_add pg pr) pc) pt) pa - (xg + xr + xc + xt + xa)\<bar>
      \<le> 1000 / 2 ^ 53 + 2000 / 2 ^ 53 + 2000 / 2 ^ 53 + 2000 / 2 ^ 53 + 2000 / 2 ^ 53"
    using e4 ea _ _ _ ba by (rule js_add_step) (use bg br bc bt in simp_all)
  have e6: "\<bar>js_add (js_add (js_add (js_add (js_add pg pr) pc) pt) pa) po - (xg + xr + xc + xt + xa + xo)\<bar>
      \<le> 1000 / 2 ^ 53 + 2000 / 2 ^ 53 + 2000 / 2 ^ 53 + 2000 / 2 ^ 53 + 2000 / 2 ^ 53 + 2000 / 2 ^ 53"
    using e5 eo _ _ _ bo by (rule js_add_step) (use bg br bc bt ba in simp_all)
  have l: "js_weighted_sum s w = js_add (js_add (js_add (js_add (js_add pg pr) pc) pt) pa) po"
    unfolding js_weighted_sum_expand pg_def pr_def pc_def pt_def pa_def po_def ..
  have r: "spec_weighted_sum s w = xg + xr + xc + xt + xa + xo"
    unfolding spec_weighted_sum_expand xg_def xr_def xc_def xt_def xa_def xo_def ..
  show ?thesis unfolding l r using e6 by simp
qed

lemma js_sub_step:
  assumes "\<bar>y - X\<bar> \<le> d" "d \<le> 1 / 2" "0 \<le> X" "X \<le> 600"
  shows "\<bar>js_sub y 5 - (X - 5)\<bar> \<le> d + 1000 / 2 ^ 53"
proof -
  have 1: "\<bar>(y - 5) - (X - 5)\<bar> \<le> d" using assms(1) by simp
  have 2: "d \<le> 1" using assms(2) by simp
  have 3: "\<bar>X - 5\<bar> \<le> 999" using assms(3,4) by linarith
  show ?thesis unfolding js_sub_def using to_double_step[OF 1 2 3] .
qed

lemma js_less_penalties_error:
  assumes "\<bar>y - X\<bar> \<le> 11000 / 2 ^ 53" "5 \<le> X" "X \<le> 600"
  shows "\<bar>js_less_penalties p y - (X - spec_global_penalty p)\<bar> \<le> 13000 / 2 ^ 53"
proof -
  have s1: "\<bar>js_sub y 5 - (X - 5)\<bar> \<le> 11000 / 2 ^ 53 + 1000 / 2 ^ 53"
    using assms(1) by (rule js_sub_step) (use assms in simp_all)
  have s2: "\<bar>js_sub (js_sub y 5) 5 - (X - 5 - 5)\<bar> \<le> 11000 / 2 ^ 53 + 1000 / 2 ^ 53 + 1000 / 2 ^ 53"
    using s1 by (rule js_sub_step) (use assms in simp_all)
  consider "mfa p = Some ''none''" "backupFrequency p = Some ''none''"
    | "mfa p = Some ''none''" "backupFrequency p \<noteq> Some ''none''"
    | "mfa p \<noteq> Some ''none''" "backupFrequency p = Some ''none''"
    | "mfa p \<noteq> Some ''none''" "backupFrequency p \<noteq> Some ''none''" by blast
  then show ?thesis
  proof cases
    case 1 then show ?thesis using s2
      by (simp add: js_less_penalties_def spec_global_penalty_def Let_def)
  next
    case 2 then show ?thesis using s1
      by (simp add: js_less_penalties_def spec_global_penalty_def Let_def)
  next
    case 3 then show ?thesis using s1
      by (simp add: js_less_penalties_def spec_global_penalty_def Let_def)
  next
    case 4 then show ?thesis using assms(1)
      by (simp add: js_less_penalties_def spec_global_penalty_def Let_def)
  qed
qed


subsection \<open>The exact weighted sum stays between 10 and 100\<close>

lemma weighted_bounds_generic:
  fixes wg wr wc wt wa wo :: rat and vg vr vc vt va vo :: int
  assumes "35 \<le> vg" "vg \<le> 100" "0 \<le> vr" "vr \<le> 100" "50 \<le> vc" "vc \<le> 100"
      "35 \<le> vt" "vt \<le> 100" "0 \<le> va" "va \<le> 100" "25 \<le> vo" "vo \<le> 95"
    and "0 \<le> wg" "0 \<le> wr" "0 \<le> wc" "0 \<le> wt" "0 \<le> wa" "0 \<le> wo"
    and "10 \<le> 35 * wg + 50 * wc + 35 * wt + 25 * wo"
    and "100 * (wg + wr + wc + wt + wa) + 95 * wo \<le> 100"
  shows "10 \<le> of_int vg * wg + of_int vr * wr + of_int vc * wc + of_int vt * wt + of_int va * wa + of_int vo * wo
       \<and> of_int vg * wg + of_int vr * wr + of_int vc * wc + of_int vt * wt + of_int va * wa + of_int vo * wo \<le> 100"
proof -
  have g1: "35 * wg \<le> of_int vg * wg" by (rule mult_right_mono) (use assms(1,13) in simp_all)
  have g2: "of_int vg * wg \<le> 100 * wg" by (rule mult_right_mono) (use assms(2,13) in simp_all)
  have r1: "0 * wr \<le> of_int vr * wr" by (rule mult_right_mono) (use assms(3,14) in simp_all)
  have r2: "of_int vr * wr \<le> 100 * wr" by (rule mult_right_mono) (use assms(4,14) in simp_all)
  have c1: "50 * wc \<le> of_int vc * wc" by (rule mult_right_mono) (use assms(5,15) in simp_all)
  have c2: "of_int vc * wc \<le> 100 * wc" by (rule mult_right_mono) (use assms(6,15) in simp_all)
  have t1: "35 * wt \<le> of_int vt * wt" by (rule mult_right_mono) (use assms(7,16) in simp_all)
  have t2: "of_int vt * wt \<le> 100 * wt" by (rule mult_right_mono) (use assms(8,16) in simp_all)
  have a1: "0 * wa \<le> of_int va * wa" by (rule mult_right_mono) (use assms(9,17) in simp_all)
  have a2: "of_int va * wa \<le> 100 * wa" by (rule mult_right_mono) (use assms(10,17) in simp_all)
  have b1: "25 * wo \<le> of_int vo * wo" by (rule mult_right_mono) (use assms(11,18) in simp_all)
  have b2: "of_int vo * wo \<le> 95 * wo" by (rule mult_right_mono) (use assms(12,18) in simp_all)
  have lo: "35 * wg + 0 * wr + 50 * wc + 35 * wt + 0 * wa + 25 * wo
        \<le> of_int vg * wg + of_int vr * wr + of_int vc * wc + of_int vt * wt + of_int va * wa + of_int vo * wo"
    by (intro add_mono g1 r1 c1 t1 a1 b1)
  have hi: "of_int vg * wg + of_int vr * wr + of_int vc * wc + of_int vt * wt + of_int va * wa + of_int vo * wo
        \<le> 100 * wg + 100 * wr + 100 * wc + 100 * wt + 100 * wa + 95 * wo"
    by (intro add_mono g2 r2 c2 t2 a2 b2)
  have e1: "35 * wg + 0 * wr + 50 * wc + 35 * wt + 0 * wa + 25 * wo = 35 * wg + 50 * wc + 35 * wt + 25 * wo"
    by simp
  have e2: "100 * wg + 100 * wr + 100 * wc + 100 * wt + 100 * wa + 95 * wo
      = 100 * (wg + wr + wc + wt + wa) + 95 * wo" by (simp add: algebra_simps)
  have "10 \<le> of_int vg * wg + of_int vr * wr + of_int vc * wc + of_int vt * wt + of_int va * wa + of_int vo * wo"
    using lo assms(19) unfolding e1 by (rule order_trans[rotated])
  moreover have "of_int vg * wg + of_int vr * wr + of_int vc * wc + of_int vt * wt + of_int va * wa + of_int vo * wo \<le> 100"
    using hi assms(20) unfolding e2 by (rule order_trans)
  ultimately show ?thesis by (rule conjI)
qed

lemma spec_weight_fintech:
  "spec_weight fintech_config d = (if d = Compliance then to_double (25 / 100) else to_double (15 / 100))"
  by (cases d) (simp_all add: spec_weight_def fintech_config_def dims_of_def)

lemma spec_weight_healthcare:
  "spec_weight healthcare_config d =
     (if d = Compliance then to_double (30 / 100)
      else if d = Governance then to_double (10 / 100) else to_double (15 / 100))"
  by (cases d) (simp_all add: spec_weight_def healthcare_config_def dims_of_def)

lemma spec_weight_saas:
  "spec_weight saas_config d =
     (if d = Governance then to_double (10 / 100)
      else if d = Technical then to_double (20 / 100)
      else if d = Application then to_double (25 / 100) else to_double (15 / 100))"
  by (cases d) (simp_all add: spec_weight_def saas_config_def dims_of_def)

lemma spec_weight_default:
  "spec_weight default_config d = to_double (166 / 1000)"
  by (cases d) (simp_all add: spec_weight_def default_config_def dims_of_def)

lemma weight_literal_crude:
  assumes "0 \<le> w" "w \<le> 1 / 2"
  shows "w * (999 / 1000) \<le> to_double w \<and> to_double w \<le> w * (1001 / 1000)"
proof -
  have "w / 2 ^ 53 \<le> w / 1000" using assms(1) by (intro divide_left_mono) auto
  then show ?thesis using weight_literal_bounds[OF assms] by (simp add: field_simps)
qed

lemma w15: "14985 / 100000 \<le> to_double (15 / 100)" "to_double (15 / 100) \<le> 15015 / 100000"
  using weight_literal_crude[of "15 / 100"] by simp_all
lemma w10: "999 / 10000 \<le> to_double (10 / 100)" "to_double (10 / 100) \<le> 1001 / 10000"
  using weight_literal_crude[of "10 / 100"] by simp_all
lemma w20: "1998 / 10000 \<le> to_double (20 / 100)" "to_double (20 / 100) \<le> 2002 / 10000"
  using weight_literal_crude[of "20 / 100"] by simp_all
lemma w25: "24975 / 100000 \<le> to_double (25 / 100)" "to_double (25 / 100) \<le> 25025 / 100000"
  using weight_literal_crude[of "25 / 100"] by simp_all
lemma w30: "2997 / 10000 \<le> to_double (30 / 100)" "to_double (30 / 100) \<le> 3003 / 10000"
  using weight_literal_crude[of "30 / 100"] by simp_all
lemma w166: "165834 / 1000000 \<le> to_double (166 / 1000)" "to_double (166 / 1000) \<le> 166166 / 1000000"
  using weight_literal_crude[of "166 / 1000"] by simp_all

lemma spec_weight_range_fintech:
  "0 < spec_weight fintech_config d \<and> spec_weight fintech_config d \<le> 1"
  using w15 w25 by (simp add: spec_weight_fintech)

lemma spec_weight_range_healthcare:
  "0 < spec_weight healthcare_config d \<and> spec_weight healthcare_config d \<le> 1"
  using w15 w10 w30 by (simp add: spec_weight_healthcare)

lemma spec_weight_range_saas:
  "0 < spec_weight saas_config d \<and> spec_weight saas_config d \<le> 1"
  using w15 w10 w20 w25 by (simp add: spec_weight_saas)

lemma spec_weight_range_default:
  "0 < spec_weight default_config d \<and> spec_weight default_config d \<le> 1"
  using w166 by (simp add: spec_weight_default)

lemma spec_weight_range:
  assumes "c \<in> {fintech_config, healthcare_config, saas_config, default_config}"
  shows "0 < spec_weight c d \<and> spec_weight c d \<le> 1"
  using assms spec_weight_range_fintech[of d] spec_weight_range_healthcare[of d]
    spec_weight_range_saas[of d] spec_weight_range_default[of d]
  by blast

lemmas score_bounds =
  gov_range[THEN conjunct1] gov_range[THEN conjunct2]
  risk_range[THEN conjunct1] risk_range[THEN conjunct2]
  comp_range[THEN conjunct1] comp_range[THEN conjunct2]
  tech_range[THEN conjunct1] tech_range[THEN conjunct2]
  app_range[THEN conjunct1] app_range[THEN conjunct2]
  ops_range[THEN conjunct1] ops_upper

lemma exact_sum_bounds:
  assumes "c \<in> {fintech_config, healthcare_config, saas_config, default_config}"
  shows "10 \<le> spec_weighted_sum (dimension_score p) (spec_weight c)
       \<and> spec_weighted_sum (dimension_score p) (spec_weight c) \<le> 100"
proof -
  have n15: "0 \<le> to_double (15 / 100)" using w15 by simp
  have n10: "0 \<le> to_double (10 / 100)" using w10 by simp
  have n20: "0 \<le> to_double (20 / 100)" using w20 by simp
  have n25: "0 \<le> to_double (25 / 100)" using w25 by simp
  have n30: "0 \<le> to_double (30 / 100)" using w30 by simp
  have n166: "0 \<le> to_double (166 / 1000)" using w166 by simp
  from assms consider "c = fintech_config" | "c = healthcare_config" | "c = saas_config"
    | "c = default_config" by auto
  then show ?thesis
  proof cases
    case 1
    have lo: "10 \<le> 35 * to_double (15 / 100) + 50 * to_double (25 / 100)
                 + 35 * to_double (15 / 100) + 25 * to_double (15 / 100)"
      using w15 w25 by simp
    have hi: "100 * (to_double (15 / 100) + to_double (15 / 100) + to_double (25 / 100)
                 + to_double (15 / 100) + to_double (15 / 100)) + 95 * to_double (15 / 100) \<le> 100"
      using w15 w25 by simp
    show ?thesis
      unfolding 1 spec_weighted_sum_expand dimension_score_def spec_weight_fintech
      apply (simp only: dim.case dim.distinct if_True if_False refl)
      by (rule weighted_bounds_generic[OF score_bounds n15 n15 n25 n15 n15 n15 lo hi])
  next
    case 2
    have lo: "10 \<le> 35 * to_double (10 / 100) + 50 * to_double (30 / 100)
                 + 35 * to_double (15 / 100) + 25 * to_double (15 / 100)"
      using w15 w10 w30 by simp
    have hi: "100 * (to_double (10 / 100) + to_double (15 / 100) + to_double (30 / 100)
                 + to_double (15 / 100) + to_double (15 / 100)) + 95 * to_double (15 / 100) \<le> 100"
      using w15 w10 w30 by simp
    show ?thesis
      unfolding 2 spec_weighted_sum_expand dimension_score_def spec_weight_healthcare
      apply (simp only: dim.case dim.distinct if_True if_False refl)
      by (rule weighted_bounds_generic[OF score_bounds n10 n15 n30 n15 n15 n15 lo hi])
  next
    case 3
    have lo: "10 \<le> 35 * to_double (10 / 100) + 50 * to_double (15 / 100)
                 + 35 * to_double (20 / 100) + 25 * to_double (15 / 100)"
      using w15 w10 w20 by simp
    have hi: "100 * (to_double (10 / 100) + to_double (15 / 100) + to_double (15 / 100)
                 + to_double (20 / 100) + to_double (25 / 100)) + 95 * to_double (15 / 100) \<le> 100"
      using w15 w10 w20 w25 by simp
    show ?thesis
      unfolding 3 spec_weighted_sum_expand dimension_score_def spec_weight_saas
      apply (simp only: dim.case dim.distinct if_True if_False refl)
      by (rule weighted_bounds_generic[OF score_bounds n10 n15 n15 n20 n25 n15 lo hi])
  next
    case 4
    have lo: "10 \<le> 35 * to_double (166 / 1000) + 50 * to_double (166 / 1000)
                 + 35 * to_double (166 / 1000) + 25 * to_double (166 / 1000)"
      using w166 by simp
    have hi: "100 * (to_double (166 / 1000) + to_double (166 / 1000) + to_double (166 / 1000)
                 + to_double (166 / 1000) + to_double (166 / 1000)) + 95 * to_double (166 / 1000) \<le> 100"
      using w166 by simp
    show ?thesis
      unfolding 4 spec_weighted_sum_expand dimension_score_def spec_weight_default
      apply (simp only: dim.case)
      by (rule weighted_bounds_generic[OF score_bounds n166 n166 n166 n166 n166 n166 lo hi])
  qed
qed


subsection \<open>What \<open>calculateMaturityScore\<close> returns\<close>

lemma with_Own:
  assumes "table (if truthy_property (table (property_key (industry p)))
                  then property_key (industry p) else ''default'') = Own c"
  shows "calculateMaturityScore_with table p = Inr
     \<lparr>overall = Math_round (clamp (js_less_penalties p (js_weighted_sum (dimension_score p)
                          (weight_or_default (dimensions c))))),
       governance = calculateGovernanceScore p, risk = calculateRiskScore p,
       compliance = calculateComplianceScore p, technical = calculateTechnicalScore p,
       application = calculateApplicationScore p, operational = calculateOperationalScore p,
       labels = maturity_labels\<rparr>"
proof -
  have "truthy_property (Own c)" by (simp add: truthy_property_def)
  then show ?thesis
    using assms
    unfolding calculateMaturityScore_with_def Let_def
    by (simp add: Math_round_of_int js_weighted_sum_expand dimension_score_def
        js_less_penalties_def Let_def split: if_splits)
qed

lemma with_not_Own:
  assumes "table (if truthy_property (table (property_key (industry p)))
                  then property_key (industry p) else ''default'') \<in> {Inherited, Missing}"
  shows "calculateMaturityScore_with table p = Inl TypeError"
  using assms
  unfolding calculateMaturityScore_with_def Let_def
  by (auto simp: truthy_property_def split: property.splits)

lemma selected_config_mem:
  "spec_selected_config p \<in> {fintech_config, healthcare_config, saas_config, default_config}"
  by (simp add: spec_selected_config_cases Let_def)

lemma weight_or_default_eq:
  assumes "c \<in> {fintech_config, healthcare_config, saas_config, default_config}"
  shows "weight_or_default (dimensions c) = spec_weight c"
proof
  fix d
  have nz: "spec_weight c d \<noteq> 0" using spec_weight_range[OF assms, of d] by simp
  from assms have "dimensions c d \<noteq> None"
    by (cases d) (auto simp: dims_of_def fintech_config_def healthcare_config_def
        saas_config_def default_config_def)
  then show "weight_or_default (dimensions c) d = spec_weight c d"
    using nz by (auto simp: weight_or_default_def spec_weight_def)
qed

lemma calculateMaturityScore_inherited:
  "property_key (industry p) \<in> set object_prototype_keys \<Longrightarrow>
   calculateMaturityScore p = Inl TypeError"
  unfolding calculateMaturityScore_def
  by (rule with_not_Own)
     (auto simp: INDUSTRY_WEIGHTS_cases truthy_property_def object_prototype_keys_def)

lemma calculateMaturityScore_returns:
  assumes "property_key (industry p) \<notin> set object_prototype_keys"
  shows "calculateMaturityScore p = Inr
     \<lparr>overall = Math_round (clamp (js_less_penalties p (js_weighted_sum (dimension_score p)
                          (spec_weight (spec_selected_config p))))),
       governance = calculateGovernanceScore p, risk = calculateRiskScore p,
       compliance = calculateComplianceScore p, technical = calculateTechnicalScore p,
       application = calculateApplicationScore p, operational = calculateOperationalScore p,
       labels = maturity_labels\<rparr>"
proof -
  let ?k = "property_key (industry p)"
  have 1: "INDUSTRY_WEIGHTS (if truthy_property (INDUSTRY_WEIGHTS ?k) then ?k else ''default'')
         = Own (spec_selected_config p)"
    using assms
    by (simp add: INDUSTRY_WEIGHTS_cases spec_selected_config_cases truthy_property_def Let_def)
  show ?thesis
    unfolding calculateMaturityScore_def
    using with_Own[where table=INDUSTRY_WEIGHTS and p=p, OF 1]
    by (simp add: weight_or_default_eq[OF selected_config_mem])
qed

lemma calculateMaturityScore_Inr_iff:
  "(\<exists>m. calculateMaturityScore p = Inr m) \<longleftrightarrow>
   property_key (industry p) \<notin> set object_prototype_keys"
  using calculateMaturityScore_returns[of p] calculateMaturityScore_inherited[of p] by auto

lemma clamp_lipschitz: "\<bar>clamp y - clamp x\<bar> \<le> \<bar>y - (x::rat)\<bar>"
  by (simp add: clamp_def max_def min_def)

lemma clamp_id: "0 \<le> x \<Longrightarrow> x \<le> 100 \<Longrightarrow> clamp x = (x::rat)"
  by (simp add: clamp_def)

lemma dimension_score_range: "0 \<le> dimension_score p d \<and> dimension_score p d \<le> 100"
  using gov_range[of p] risk_range[of p] comp_range[of p] tech_range[of p] app_range[of p]
    ops_range[of p]
  by (cases d) (simp_all add: dimension_score_def)

lemma overall_close:
  "\<bar>of_int (Math_round (clamp (js_less_penalties p (js_weighted_sum (dimension_score p)
        (spec_weight (spec_selected_config p))))))
    - (spec_weighted_sum (dimension_score p) (spec_weight (spec_selected_config p))
        - spec_global_penalty p)\<bar> \<le> 1"
proof -
  let ?w = "spec_weight (spec_selected_config p)"
  let ?X = "spec_weighted_sum (dimension_score p) ?w"
  let ?x = "?X - spec_global_penalty p"
  let ?y = "js_less_penalties p (js_weighted_sum (dimension_score p) ?w)"
  have w: "0 \<le> ?w d \<and> ?w d \<le> 1" for d
    using spec_weight_range[OF selected_config_mem, of p d] by simp
  have X: "10 \<le> ?X" "?X \<le> 100"
    using exact_sum_bounds[OF selected_config_mem, of p p] by simp_all
  have e1: "\<bar>js_weighted_sum (dimension_score p) ?w - ?X\<bar> \<le> 11000 / 2 ^ 53"
    by (rule js_weighted_sum_error) (rule dimension_score_range, rule w)
  have e2: "\<bar>?y - ?x\<bar> \<le> 13000 / 2 ^ 53"
    using e1 by (rule js_less_penalties_error) (use X in simp_all)
  have pen: "0 \<le> spec_global_penalty p" "spec_global_penalty p \<le> 10"
    by (simp_all add: spec_global_penalty_def)
  have x: "0 \<le> ?x" "?x \<le> 100" using X pen by linarith+
  have "\<bar>clamp ?y - ?x\<bar> \<le> 13000 / 2 ^ 53"
    using clamp_lipschitz[of ?y ?x] clamp_id[OF x] e2 by simp
  moreover have "\<bar>of_int (Math_round (clamp ?y)) - clamp ?y\<bar> \<le> 1 / 2"
    by (rule Math_round_close)
  moreover have "(13000::rat) / 2 ^ 53 \<le> 1 / 2" by simp
  ultimately show ?thesis by linarith
qed


subsection \<open>The overall score is the weighted sum\<close>

text \<open>
  Claim C1. Whenever \<open>calculateMaturityScore\<close> returns (it does for every profile whose
  industry is not the name of a property inherited from \<open>Object.prototype\<close>), the
  \<open>overall\<close> field is the weighted sum of the six dimension scores with the selected
  industry's weights, less 5 when \<open>mfa\<close> is \<open>'none'\<close> and less 5 when
  \<open>backupFrequency\<close> is \<open>'none'\<close>, clamped to [0,100] and rounded, all in the
  engine's double arithmetic; and the exact weighted sum of the rounded dimension scores
  of the result, less the penalties, differs from \<open>overall\<close> by at most 1.
\<close>
theorem overall_is_weighted_sum:
  "(property_key (industry p) \<notin> set object_prototype_keys \<longrightarrow>
      (\<exists>m. calculateMaturityScore p = Inr m)) \<and>
   (\<forall>m. calculateMaturityScore p = Inr m \<longrightarrow>
      overall m = Math_round (clamp (js_less_penalties p
          (js_weighted_sum (dimension_score p) (spec_weight (spec_selected_config p))))) \<and>
      \<bar>of_int (overall m) -
         (spec_weighted_sum (rounded_score m) (spec_weight (spec_selected_config p))
            - spec_global_penalty p)\<bar> \<le> 1)"
proof (intro conjI impI allI)
  assume "property_key (industry p) \<notin> set object_prototype_keys"
  then show "\<exists>m. calculateMaturityScore p = Inr m"
    using calculateMaturityScore_Inr_iff by blast
next
  fix m assume m: "calculateMaturityScore p = Inr m"
  then have k: "property_key (industry p) \<notin> set object_prototype_keys"
    using calculateMaturityScore_Inr_iff by blast
  note r = calculateMaturityScore_returns[OF k, unfolded m]
  from r show o: "overall m = Math_round (clamp (js_less_penalties p
          (js_weighted_sum (dimension_score p) (spec_weight (spec_selected_config p)))))"
    by simp
  have rs: "rounded_score m = dimension_score p"
  proof
    fix d show "rounded_score m d = dimension_score p d"
      using r by (cases d) (auto simp: rounded_score_def dimension_score_def)
  qed
  show "\<bar>of_int (overall m) -
         (spec_weighted_sum (rounded_score m) (spec_weight (spec_selected_config p))
            - spec_global_penalty p)\<bar> \<le> 1"
    unfolding rs o by (rule overall_close)
qed

theorem overall_is_weighted_sum_witness:
  "\<exists>m. calculateMaturityScore form_default = Inr m \<and>
     overall m = Math_round (clamp (js_less_penalties form_default
          (js_weighted_sum (dimension_score form_default) (spec_weight saas_config)))) \<and>
     \<bar>of_int (overall m) -
         (spec_weighted_sum (rounded_score m) (spec_weight saas_config) - 10)\<bar> \<le> 1"
proof -
  have k: "property_key (industry form_default) \<notin> set object_prototype_keys"
    by (simp add: form_default_def empty_profile_def property_key_def object_prototype_keys_def)
  have c: "spec_selected_config form_default = saas_config"
    by (simp add: spec_selected_config_cases form_default_def empty_profile_def property_key_def)
  have g: "spec_global_penalty form_default = 10"
    by (simp add: spec_global_penalty_def form_default_def empty_profile_def)
  from overall_is_weighted_sum[of form_default] k c g show ?thesis by auto
qed

subsection \<open>Every score lies in [0,100]\<close>

lemma scores_in_range_with:
  assumes "calculateMaturityScore_with table p = Inr m"
  shows "0 \<le> overall m \<and> overall m \<le> 100
       \<and> 0 \<le> governance m \<and> governance m \<le> 100
       \<and> 0 \<le> risk m \<and> risk m \<le> 100
       \<and> 0 \<le> compliance m \<and> compliance m \<le> 100
       \<and> 0 \<le> technical m \<and> technical m \<le> 100
       \<and> 0 \<le> application m \<and> application m \<le> 100
       \<and> 0 \<le> operational m \<and> operational m \<le> 100"
proof -
  let ?k = "if truthy_property (table (property_key (industry p)))
            then property_key (industry p) else ''default''"
  have o: "0 \<le> Math_round (clamp x) \<and> Math_round (clamp x) \<le> 100" for x :: rat
    using clamp_range[of x] by (intro Math_round_range) simp_all
  show ?thesis
  proof (cases "table ?k")
    case (Own c)
    note r = with_Own[where table=table and p=p, OF Own, unfolded assms]
    show ?thesis
      using r o gov_range[of p] risk_range[of p] comp_range[of p] tech_range[of p]
        app_range[of p] ops_range[of p]
      by auto
  next
    case Inherited
    then have "calculateMaturityScore_with table p = Inl TypeError"
      by (intro with_not_Own[where table=table and p=p]) simp
    with assms show ?thesis by simp
  next
    case Missing
    then have "calculateMaturityScore_with table p = Inl TypeError"
      by (intro with_not_Own[where table=table and p=p]) simp
    with assms show ?thesis by simp
  qed
qed

text \<open>
  Claim C2. Whenever \<open>calculateMaturityScore\<close> returns (it does for every profile whose
  industry is not the name of a property inherited from \<open>Object.prototype\<close>), each of
  the six dimension scores and the overall score lies between 0 and 100.
\<close>
theorem maturity_scores_in_range:
  "(property_key (industry p) \<notin> set object_prototype_keys \<longrightarrow>
      (\<exists>m. calculateMaturityScore p = Inr m)) \<and>
   (\<forall>m. calculateMaturityScore p = Inr m \<longrightarrow>
      0 \<le> overall m \<and> overall m \<le> 100
       \<and> 0 \<le> governance m \<and> governance m \<le> 100
       \<and> 0 \<le> risk m \<and> risk m \<le> 100
       \<and> 0 \<le> compliance m \<and> compliance m \<le> 100
       \<and> 0 \<le> technical m \<and> technical m \<le> 100
       \<and> 0 \<le> application m \<and> application m \<le> 100
       \<and> 0 \<le> operational m \<and> operational m \<le> 100)"
  using calculateMaturityScore_Inr_iff[of p] scores_in_range_with[of INDUSTRY_WEIGHTS p]
  unfolding calculateMaturityScore_def by blast

theorem maturity_scores_in_range_witness:
  "\<exists>m. calculateMaturityScore form_default = Inr m \<and>
      0 \<le> overall m \<and> overall m \<le> 100
       \<and> 0 \<le> governance m \<and> governance m \<le> 100
       \<and> 0 \<le> risk m \<and> risk m \<le> 100
       \<and> 0 \<le> compliance m \<and> compliance m \<le> 100
       \<and> 0 \<le> technical m \<and> technical m \<le> 100
       \<and> 0 \<le> application m \<and> application m \<le> 100
       \<and> 0 \<le> operational m \<and> operational m \<le> 100"
proof -
  have k: "property_key (industry form_default) \<notin> set object_prototype_keys"
    by (simp add: form_default_def empty_profile_def property_key_def object_prototype_keys_def)
  from maturity_scores_in_range[of form_default] k show ?thesis by blast
qed

subsection \<open>Unknown industries\<close>

text \<open>An industry that is neither a key of the table nor the name of an inherited
  property selects the uniform default weights, and the function returns.\<close>

lemma unknown_industry_uses_default:
  assumes "map_of industry_entries (property_key (industry p)) = None"
      and "property_key (industry p) \<notin> set object_prototype_keys"
  shows "\<exists>m. calculateMaturityScore p = Inr m \<and>
     overall m = Math_round (clamp (js_less_penalties p
        (js_weighted_sum (dimension_score p) (\<lambda>d. to_double (166 / 1000)))))"
proof -
  have "spec_selected_config p = default_config"
    using assms(1) by (simp add: spec_selected_config_def)
  moreover have "spec_weight default_config = (\<lambda>d. to_double (166 / 1000))"
    by (rule ext) (rule spec_weight_default)
  ultimately show ?thesis
    using calculateMaturityScore_returns[OF assms(2)] by simp
qed

text \<open>
  Claim C8 says that every industry that is no key of the weight table falls back to
  the default weights without an error. The industry \<open>'constructor'\<close> is no key of the
  table, but \<open>INDUSTRY_WEIGHTS['constructor']\<close> finds the inherited
  \<open>Object.prototype.constructor\<close>, which is truthy: no fallback is taken,
  \<open>config.dimensions\<close> is \<open>undefined\<close>, and reading \<open>dims.governance\<close> throws a
  TypeError.
\<close>

theorem inherited_industry_key_throws:
  "map_of industry_entries ''constructor'' = None \<and>
   calculateMaturityScore (empty_profile\<lparr>industry := Some ''constructor''\<rparr>) = Inl TypeError"
proof
  show "map_of industry_entries ''constructor'' = None"
    by (simp add: industry_entries_def)
  show "calculateMaturityScore (empty_profile\<lparr>industry := Some ''constructor''\<rparr>) = Inl TypeError"
    by (rule calculateMaturityScore_inherited)
       (simp add: property_key_def object_prototype_keys_def)
qed

subsection \<open>The penalty and bonus tables are never read\<close>

lemma replace_tables_truthy:
  "truthy_property (replace_tables ps bs k) = truthy_property (INDUSTRY_WEIGHTS k)"
  by (simp add: replace_tables_def truthy_property_def split: property.splits)

lemma replace_tables_same:
  "calculateMaturityScore_with (replace_tables ps bs) p = calculateMaturityScore p"
proof -
  let ?k = "if truthy_property (INDUSTRY_WEIGHTS (property_key (industry p)))
            then property_key (industry p) else ''default''"
  show ?thesis
  proof (cases "INDUSTRY_WEIGHTS ?k")
    case (Own c)
    have 1: "replace_tables ps bs (if truthy_property (replace_tables ps bs (property_key (industry p)))
               then property_key (industry p) else ''default'')
             = Own (c\<lparr>penalties := ps ?k, bonuses := bs ?k\<rparr>)"
      unfolding replace_tables_truthy using Own by (simp add: replace_tables_def)
    show ?thesis
      unfolding calculateMaturityScore_def with_Own[where table=INDUSTRY_WEIGHTS and p=p, OF Own]
        with_Own[where table="replace_tables ps bs" and p=p, OF 1] by simp
  next
    case Inherited
    have 1: "replace_tables ps bs (if truthy_property (replace_tables ps bs (property_key (industry p)))
               then property_key (industry p) else ''default'') \<in> {Inherited, Missing}"
      unfolding replace_tables_truthy using Inherited by (simp add: replace_tables_def)
    have 2: "INDUSTRY_WEIGHTS ?k \<in> {Inherited, Missing}" using Inherited by simp
    show ?thesis
      unfolding calculateMaturityScore_def
        with_not_Own[where table="replace_tables ps bs" and p=p, OF 1]
        with_not_Own[where table=INDUSTRY_WEIGHTS and p=p, OF 2] ..
  next
    case Missing
    have 1: "replace_tables ps bs (if truthy_property (replace_tables ps bs (property_key (industry p)))
               then property_key (industry p) else ''default'') \<in> {Inherited, Missing}"
      unfolding replace_tables_truthy using Missing by (simp add: replace_tables_def)
    have 2: "INDUSTRY_WEIGHTS ?k \<in> {Inherited, Missing}" using Missing by simp
    show ?thesis
      unfolding calculateMaturityScore_def
        with_not_Own[where table="replace_tables ps bs" and p=p, OF 1]
        with_not_Own[where table=INDUSTRY_WEIGHTS and p=p, OF 2] ..
  qed
qed

text \<open>
  Claim C10. The weight table declares penalty and bonus tables (fintech \<open>no_mfa\<close> -25
  and \<open>cert_exists\<close> +10, default \<open>no_backup\<close> -20), but replacing them by any
  other tables changes nothing in the result of \<open>calculateMaturityScore\<close>. The only
  adjustments of the overall score are the subtraction of 5 when \<open>mfa\<close> is
  \<open>'none'\<close> and of 5 when \<open>backupFrequency\<close> is \<open>'none'\<close>, whatever the industry.
\<close>

theorem penalty_tables_never_read:
  "map_of (penalties fintech_config) ''no_mfa'' = Some (- 25) \<and>
   map_of (penalties default_config) ''no_backup'' = Some (- 20) \<and>
   map_of (bonuses fintech_config) ''cert_exists'' = Some 10 \<and>
   calculateMaturityScore_with (replace_tables ps bs) p = calculateMaturityScore p \<and>
   (\<forall>m. calculateMaturityScore p = Inr m \<longrightarrow>
      overall m = Math_round (clamp (js_less_penalties p
          (js_weighted_sum (dimension_score p) (spec_weight (spec_selected_config p)))))) \<and>
   js_less_penalties (p\<lparr>industry := i\<rparr>) x =
     (let x = (if mfa p = Some ''none'' then js_sub x 5 else x)
      in if backupFrequency p = Some ''none'' then js_sub x 5 else x)"
proof (intro conjI allI impI)
  show "map_of (penalties fintech_config) ''no_mfa'' = Some (- 25)"
    by (simp add: fintech_config_def)
  show "map_of (penalties default_config) ''no_backup'' = Some (- 20)"
    by (simp add: default_config_def)
  show "map_of (bonuses fintech_config) ''cert_exists'' = Some 10"
    by (simp add: fintech_config_def)
  show "calculateMaturityScore_with (replace_tables ps bs) p = calculateMaturityScore p"
    by (rule replace_tables_same)
  show "js_less_penalties (p\<lparr>industry := i\<rparr>) x =
     (let x = (if mfa p = Some ''none'' then js_sub x 5 else x)
      in if backupFrequency p = Some ''none'' then js_sub x 5 else x)"
    by (simp add: js_less_penalties_def)
next
  fix m assume m: "calculateMaturityScore p = Inr m"
  then have k: "property_key (industry p) \<notin> set object_prototype_keys"
    using calculateMaturityScore_Inr_iff by blast
  from calculateMaturityScore_returns[OF k, unfolded m]
  show "overall m = Math_round (clamp (js_less_penalties p
          (js_weighted_sum (dimension_score p) (spec_weight (spec_selected_config p)))))"
    by simp
qed

theorem penalty_tables_never_read_witness:
  "calculateMaturityScore_with (replace_tables (\<lambda>k. []) (\<lambda>k. [])) form_default
     = calculateMaturityScore form_default \<and>
   (\<exists>m. calculateMaturityScore form_default = Inr m \<and>
      overall m = Math_round (clamp (js_less_penalties form_default
          (js_weighted_sum (dimension_score form_default) (spec_weight saas_config)))))"
proof -
  have k: "property_key (industry form_default) \<notin> set object_prototype_keys"
    by (simp add: form_default_def empty_profile_def property_key_def object_prototype_keys_def)
  have c: "spec_selected_config form_default = saas_config"
    by (simp add: spec_selected_config_cases form_default_def empty_profile_def property_key_def)
  obtain m where m: "calculateMaturityScore form_default = Inr m"
    using calculateMaturityScore_Inr_iff[of form_default] k by blast
  from penalty_tables_never_read[of "\<lambda>k. []" "\<lambda>k. []" form_default undefined undefined] m c
  show ?thesis by auto
qed

section \<open>Properties of the risk pool\<close>

subsection \<open>Sorting, truncating and numbering\<close>

lemma length_select_top: "length (select_top n pl) = min n (length pl)"
  by (simp add: select_top_def Let_def min.commute)

lemma nth_select_top:
  assumes "i < length (select_top n pl)"
  shows "select_top n pl ! i =
         (sort_key (\<lambda>r. - score r) pl ! i)\<lparr>riskRecord.id := IdNum (int i + 1)\<rparr>"
  using assms by (simp add: select_top_def Let_def nth_enumerate_eq)

lemma score_select_top:
  "map score (select_top n pl) = take n (map score (sort_key (\<lambda>r. - score r) pl))"
proof (rule nth_equalityI)
  show "length (map score (select_top n pl)) = length (take n (map score (sort_key (\<lambda>r. - score r) pl)))"
    by (simp add: length_select_top min.commute)
next
  fix i assume "i < length (map score (select_top n pl))"
  then have i: "i < length (select_top n pl)" by simp
  then have "i < n" "i < length pl" by (simp_all add: length_select_top)
  then show "map score (select_top n pl) ! i = take n (map score (sort_key (\<lambda>r. - score r) pl)) ! i"
    using i by (simp add: nth_select_top)
qed

lemma sorted_select_top: "sorted_wrt (\<lambda>a b. score a \<ge> score b) (select_top n pl)"
proof -
  have "sorted (map (\<lambda>r. - score r) (sort_key (\<lambda>r. - score r) pl))"
    by (rule sorted_sort_key)
  then have "sorted_wrt (\<lambda>a b. a \<ge> b) (map score (sort_key (\<lambda>r. - score r) pl))"
    by (simp add: sorted_wrt_map sorted_map)
  then have "sorted_wrt (\<lambda>a b. a \<ge> b) (take n (map score (sort_key (\<lambda>r. - score r) pl)))"
    by (rule sorted_wrt_take)
  then show ?thesis
    by (simp add: sorted_wrt_map flip: score_select_top)
qed

lemma ids_select_top:
  "map riskRecord.id (select_top n pl) = map IdNum [1..int (length (select_top n pl))]"
proof (rule nth_equalityI)
  show "length (map riskRecord.id (select_top n pl)) = length (map IdNum [1..int (length (select_top n pl))])"
    by simp
next
  fix i assume "i < length (map riskRecord.id (select_top n pl))"
  then have i: "i < length (select_top n pl)" by simp
  then show "map riskRecord.id (select_top n pl) ! i = map IdNum [1..int (length (select_top n pl))] ! i"
    by (simp add: nth_select_top)
qed

text \<open>A record survives the truncation when at most \<open>n\<close> records of the pool score at
  least as much; only its id changes.\<close>

lemma sorted_index_less_count:
  assumes "sorted (map f ys)" "i < length ys"
  shows "i < length (filter (\<lambda>y. f y \<le> f (ys ! i)) ys)"
proof -
  let ?P = "\<lambda>y. f y \<le> f (ys ! i)"
  have "?P y" if "y \<in> set (take (Suc i) ys)" for y
  proof -
    from that obtain j where j: "j < Suc i" "j < length ys" "y = ys ! j"
      by (auto simp: in_set_conv_nth)
    then have "map f ys ! j \<le> map f ys ! i"
      using assms by (intro sorted_nth_mono) simp_all
    then show ?thesis using j assms(2) by simp
  qed
  then have "filter ?P (take (Suc i) ys) = take (Suc i) ys"
    by (simp add: filter_id_conv)
  moreover have "filter ?P ys = filter ?P (take (Suc i) ys) @ filter ?P (drop (Suc i) ys)"
    by (metis append_take_drop_id filter_append)
  ultimately have "length (filter ?P ys) \<ge> length (take (Suc i) ys)"
    by simp
  then show ?thesis using assms(2) by simp
qed

lemma select_top_survives:
  assumes "x \<in> set pl" "length (filter (\<lambda>y. score x \<le> score y) pl) \<le> n"
  shows "\<exists>k. x\<lparr>riskRecord.id := IdNum k\<rparr> \<in> set (select_top n pl)"
proof -
  let ?f = "\<lambda>r. - score r"
  let ?ys = "sort_key ?f pl"
  from assms(1) have "x \<in> set ?ys" by simp
  then have "\<exists>i < length ?ys. ?ys ! i = x"
    unfolding in_set_conv_nth .
  then obtain i where i: "i < length ?ys" "?ys ! i = x" by blast
  have "i < length (filter (\<lambda>y. ?f y \<le> ?f (?ys ! i)) ?ys)"
    using sorted_sort_key i(1) by (rule sorted_index_less_count)
  also have "\<dots> = length (filter (\<lambda>y. score x \<le> score y) ?ys)"
    by (simp add: i(2))
  also have "\<dots> = length (filter (\<lambda>y. score x \<le> score y) pl)"
    by (simp add: filter_sort)
  finally have "i < n" using assms(2) by simp
  with i(1) have il: "i < length (select_top n pl)"
    by (simp add: length_select_top)
  then have "select_top n pl ! i = x\<lparr>riskRecord.id := IdNum (int i + 1)\<rparr>"
    by (simp add: nth_select_top i(2))
  with il show ?thesis by (metis nth_mem)
qed

lemma has_risk_select_top:
  assumes "has_risk nm l c s pl" "length (filter (\<lambda>y. s \<le> score y) pl) \<le> n"
  shows "has_risk nm l c s (select_top n pl)"
proof -
  from assms(1) obtain x where x: "x \<in> set pl" "risk_name x = nm" "likelihoodScore x = l"
    "consequenceScore x = c" "score x = s"
    by (auto simp: has_risk_def list_ex_iff)
  from select_top_survives[OF x(1)] assms(2) x(5) obtain k
    where "x\<lparr>riskRecord.id := IdNum k\<rparr> \<in> set (select_top n pl)" by auto
  then show ?thesis using x
    by (auto simp: has_risk_def list_ex_iff intro!: bexI[of _ "x\<lparr>riskRecord.id := IdNum k\<rparr>"])
qed

lemma product_score_select_top:
  assumes "list_all product_score pl"
  shows "list_all product_score (select_top n pl)"
proof -
  have "product_score (select_top n pl ! i)" if "i < length (select_top n pl)" for i
  proof -
    from that have "i < length pl" by (simp add: length_select_top)
    then have "sort_key (\<lambda>r. - score r) pl ! i \<in> set pl"
      by (metis length_sort nth_mem set_sort)
    then have "product_score (sort_key (\<lambda>r. - score r) pl ! i)"
      using assms by (simp add: list_all_iff)
    then show ?thesis using that by (simp add: nth_select_top product_score_def)
  qed
  then show ?thesis by (auto simp: list_all_iff in_set_conv_nth)
qed

subsection \<open>What one statement of the builder does to the pool\<close>

lemma pool_addToPool_with:
  "pool (addToPool_with lv nm l c m st) = pool st @
     [\<lparr>riskRecord.id = IdStr (CHR ''R'' # dec_string (idCounter st)), risk_name = nm,
       likelihoodScore = l, likelihoodLabel = LIKELIHOOD_SCALE l,
       consequenceScore = c, consequenceLabel = CONSEQUENCE_SCALE c,
       score = l * c, level = lv (l * c), mitigation = m\<rparr>]"
  by (simp add: addToPool_with_def Let_def)

lemma product_score_add [simp]:
  "list_all product_score (pool (addToPool_with lv nm l c m st)) = list_all product_score (pool st)"
  by (simp add: pool_addToPool_with product_score_def)

lemma product_score_add_if [simp]:
  "list_all product_score (pool (exec_if b (addToPool_with lv nm l c m) st))
     = list_all product_score (pool st)"
  by (simp add: exec_if_def)

lemma length_add [simp]:
  "length (pool (addToPool_with lv nm l c m st)) = Suc (length (pool st))"
  by (simp add: pool_addToPool_with)

lemma length_add_if [simp]:
  "length (pool (exec_if b (addToPool_with lv nm l c m) st))
     = length (pool st) + (if b then 1 else 0)"
  by (simp add: exec_if_def)

lemma count_add [simp]:
  "length (filter (\<lambda>y. k \<le> score y) (pool (addToPool_with lv nm l c m st)))
     = length (filter (\<lambda>y. k \<le> score y) (pool st)) + (if k \<le> l * c then 1 else 0)"
  by (simp add: pool_addToPool_with)

lemma count_add_if [simp]:
  "length (filter (\<lambda>y. k \<le> score y) (pool (exec_if b (addToPool_with lv nm l c m) st)))
     = length (filter (\<lambda>y. k \<le> score y) (pool st)) + (if b \<and> k \<le> l * c then 1 else 0)"
  by (simp add: exec_if_def)

lemma has_risk_add [simp]:
  "has_risk nm' l' c' s' (pool (addToPool_with lv nm l c m st))
     = (has_risk nm' l' c' s' (pool st) \<or> (nm = nm' \<and> l = l' \<and> c = c' \<and> l * c = s'))"
  by (simp add: pool_addToPool_with has_risk_def)

lemma has_risk_add_if [simp]:
  "has_risk nm' l' c' s' (pool (exec_if b (addToPool_with lv nm l c m) st))
     = (has_risk nm' l' c' s' (pool st) \<or> (b \<and> nm = nm' \<and> l = l' \<and> c = c' \<and> l * c = s'))"
  by (auto simp: exec_if_def)

lemma pool_init [simp]:
  "pool \<lparr>pool = [], idCounter = 1\<rparr> = []"
  by simp

subsection \<open>The pool of \<open>src/logic/grcEngine.js\<close>\<close>

lemma product_score_risk_pool: "list_all product_score (pool (risk_pool p))"
  by (simp add: risk_pool_def addToPool_def Let_def)

lemma length_risk_pool: "length (pool (risk_pool p)) \<le> 13"
  by (simp add: risk_pool_def addToPool_def Let_def)


subsection \<open>The pool of \<open>unnamed/part_000\<close>\<close>

lemma risk_pool_part000_None:
  "dataTypes p = None \<Longrightarrow> risk_pool_part000 p = Inl TypeError"
  by (simp add: risk_pool_part000_def includes_js_def or_else_def Let_def)

lemma sensitive_guard:
  "dataTypes p = Some ds \<Longrightarrow>
   or_else (includes_js (dataTypes p) ''pii'')
     (or_else (includes_js (dataTypes p) ''financial'') (includes_js (dataTypes p) ''health''))
   = Inr (''pii'' \<in> set ds \<or> ''financial'' \<in> set ds \<or> ''health'' \<in> set ds)"
  by (simp add: includes_js_def or_else_def)

lemma exposed_guard:
  "dataTypes p = Some ds \<Longrightarrow>
   and_then (Inr (compliance_status p = Some ''none''))
     (or_else (includes_js (dataTypes p) ''pii'') (Inr (industry p = Some ''healthcare'')))
   = Inr (compliance_status p = Some ''none'' \<and> (''pii'' \<in> set ds \<or> industry p = Some ''healthcare''))"
  by (simp add: includes_js_def or_else_def and_then_def)

lemma product_score_if:
  "list_all product_score (pool (if b then addToPool_with lv nm l c m st
                                 else addToPool_with lv nm' l' c' m' st))
     = list_all product_score (pool st)"
  by simp

lemma has_risk_if:
  "has_risk nm0 l0 c0 s0 (pool (if b then addToPool_with lv nm l c m st
                                 else addToPool_with lv nm' l' c' m' st))
     = (has_risk nm0 l0 c0 s0 (pool st)
        \<or> (b \<and> nm = nm0 \<and> l = l0 \<and> c = c0 \<and> l * c = s0)
        \<or> (\<not> b \<and> nm' = nm0 \<and> l' = l0 \<and> c' = c0 \<and> l' * c' = s0))"
  by auto

lemma count_if:
  "length (filter (\<lambda>y. k \<le> score y) (pool (if b then addToPool_with lv nm l c m st
                                 else addToPool_with lv nm' l' c' m' st)))
     = length (filter (\<lambda>y. k \<le> score y) (pool st))
       + (if (b \<and> k \<le> l * c) \<or> (\<not> b \<and> k \<le> l' * c') then 1 else 0)"
  by simp

lemma has_risk_init: "has_risk nm l c s [] = False"
  by (simp add: has_risk_def)

lemmas pool_steps =
  product_score_add product_score_add_if product_score_if
  has_risk_add has_risk_add_if has_risk_if has_risk_init
  count_add count_add_if count_if
  length_add length_add_if
  pool_init list.size filter.simps list.pred_inject

lemma risk_pool_part000_Some:
  assumes "dataTypes p = Some ds"
  shows "\<exists>st. risk_pool_part000 p = Inr st \<and> list_all product_score (pool st)"
  unfolding risk_pool_part000_def sensitive_guard[OF assms] exposed_guard[OF assms]
    Let_def sum.case addToPool_part000_def
  apply (rule exI, rule conjI, rule refl)
  apply (simp only: pool_steps)
  done

lemma le_if_mult:
  "k \<le> (if a then x else y) * (z::int) \<longleftrightarrow> (if a then k \<le> x * z else k \<le> y * z)"
  by simp

lemma risk_pool_part000_scenario:
  assumes "dataTypes p = Some ds" "mfa p = Some ''none''" "backupFrequency p = Some ''none''"
  shows "\<exists>st. risk_pool_part000 p = Inr st
     \<and> has_risk ''Ransomware Attack with Data Loss'' 5 6 30 (pool st)
     \<and> has_risk ''Credential Stuffing / Brute Force'' 5 4 20 (pool st)
     \<and> length (filter (\<lambda>y. 20 \<le> score y) (pool st)) \<le> 5"
  unfolding risk_pool_part000_def sensitive_guard[OF assms(1)] exposed_guard[OF assms(1)]
    Let_def sum.case addToPool_part000_def
  apply (rule exI, rule conjI, rule refl)
  apply (simp only: pool_steps)
  using assms(2,3)
  apply (simp add: le_if_mult)
  done


lemma risk_pool_part000_returns_iff:
  "(\<exists>st. risk_pool_part000 p = Inr st) \<longleftrightarrow> dataTypes p \<noteq> None"
  using risk_pool_part000_None[of p] risk_pool_part000_Some[of p] by (cases "dataTypes p") auto

lemma generateBaseRisks_part000_Inr:
  "generateBaseRisks_part000 p = Inr rs \<longleftrightarrow>
     (\<exists>st. risk_pool_part000 p = Inr st \<and> rs = select_top 12 (pool st))"
  by (auto simp: generateBaseRisks_part000_def split: sum.splits)

subsection \<open>Length, order and numbering of the returned list\<close>

text \<open>
  Claim C3. The list returned by the risk-pool builder has length \<open>min N (pool size)\<close>,
  with \<open>N = 15\<close> in \<open>src/logic/grcEngine.js\<close> and \<open>N = 12\<close> in
  \<open>unnamed/part_000\<close>; its scores do not increase along the list; and its ids are the
  numbers 1, 2, ..., length in that order. The second version returns a list exactly
  when the profile has a \<open>dataTypes\<close> list.
\<close>

theorem risk_list_truncated_sorted_numbered:
  "length (generateBaseRisks p) = min 15 (length (pool (risk_pool p))) \<and>
   sorted_wrt (\<lambda>a b. score a \<ge> score b) (generateBaseRisks p) \<and>
   map riskRecord.id (generateBaseRisks p) = map IdNum [1..int (length (generateBaseRisks p))] \<and>
   (dataTypes p \<noteq> None \<longrightarrow> (\<exists>rs. generateBaseRisks_part000 p = Inr rs)) \<and>
   (\<forall>rs. generateBaseRisks_part000 p = Inr rs \<longrightarrow>
      (\<exists>st. risk_pool_part000 p = Inr st \<and> length rs = min 12 (length (pool st))) \<and>
      sorted_wrt (\<lambda>a b. score a \<ge> score b) rs \<and>
      map riskRecord.id rs = map IdNum [1..int (length rs)])"
proof (intro conjI allI impI)
  show "length (generateBaseRisks p) = min 15 (length (pool (risk_pool p)))"
    by (simp add: generateBaseRisks_def length_select_top)
  show "sorted_wrt (\<lambda>a b. score a \<ge> score b) (generateBaseRisks p)"
    unfolding generateBaseRisks_def by (rule sorted_select_top)
  show "map riskRecord.id (generateBaseRisks p) = map IdNum [1..int (length (generateBaseRisks p))]"
    unfolding generateBaseRisks_def by (rule ids_select_top)
next
  assume "dataTypes p \<noteq> None"
  then obtain st where "risk_pool_part000 p = Inr st"
    using risk_pool_part000_returns_iff by blast
  then show "\<exists>rs. generateBaseRisks_part000 p = Inr rs"
    by (simp add: generateBaseRisks_part000_def)
next
  fix rs assume "generateBaseRisks_part000 p = Inr rs"
  then obtain st where st: "risk_pool_part000 p = Inr st" "rs = select_top 12 (pool st)"
    unfolding generateBaseRisks_part000_Inr by blast
  show "\<exists>st. risk_pool_part000 p = Inr st \<and> length rs = min 12 (length (pool st))"
    using st by (simp add: length_select_top)
  show "sorted_wrt (\<lambda>a b. score a \<ge> score b) rs"
    unfolding st(2) by (rule sorted_select_top)
  show "map riskRecord.id rs = map IdNum [1..int (length rs)]"
    unfolding st(2) by (rule ids_select_top)
qed

theorem risk_list_truncated_sorted_numbered_witness:
  "\<exists>rs st. generateBaseRisks_part000 (form_default\<lparr>dataTypes := Some [''pii'']\<rparr>) = Inr rs \<and>
      risk_pool_part000 (form_default\<lparr>dataTypes := Some [''pii'']\<rparr>) = Inr st \<and>
      length rs = min 12 (length (pool st)) \<and>
      sorted_wrt (\<lambda>a b. score a \<ge> score b) rs \<and>
      map riskRecord.id rs = map IdNum [1..int (length rs)]"
proof -
  let ?p = "form_default\<lparr>dataTypes := Some [''pii'']\<rparr>"
  have d: "dataTypes ?p \<noteq> None" by simp
  from risk_list_truncated_sorted_numbered[of ?p] d show ?thesis by blast
qed

subsection \<open>The score is the product of likelihood and consequence\<close>

text \<open>
  Claim C4. Every record of the pool and every record of the returned list satisfies
  \<open>score = likelihoodScore * consequenceScore\<close>, in both versions of the builder:
  \<open>addToPool\<close> is the only place that sets the three fields, and the final map changes
  the id only.
\<close>

theorem score_is_product:
  "list_all product_score (pool (risk_pool p)) \<and>
   list_all product_score (generateBaseRisks p) \<and>
   (dataTypes p \<noteq> None \<longrightarrow> (\<exists>rs. generateBaseRisks_part000 p = Inr rs)) \<and>
   (\<forall>st. risk_pool_part000 p = Inr st \<longrightarrow> list_all product_score (pool st)) \<and>
   (\<forall>rs. generateBaseRisks_part000 p = Inr rs \<longrightarrow> list_all product_score rs)"
proof (intro conjI allI impI)
  show "list_all product_score (pool (risk_pool p))"
    by (rule product_score_risk_pool)
  show "list_all product_score (generateBaseRisks p)"
    unfolding generateBaseRisks_def
    by (rule product_score_select_top) (rule product_score_risk_pool)
next
  assume "dataTypes p \<noteq> None"
  then obtain st where "risk_pool_part000 p = Inr st"
    using risk_pool_part000_returns_iff by blast
  then show "\<exists>rs. generateBaseRisks_part000 p = Inr rs"
    by (simp add: generateBaseRisks_part000_def)
next
  fix st assume st: "risk_pool_part000 p = Inr st"
  then have "dataTypes p \<noteq> None" using risk_pool_part000_returns_iff by blast
  then obtain ds where "dataTypes p = Some ds" by blast
  from risk_pool_part000_Some[OF this] st
  show "list_all product_score (pool st)" by simp
next
  fix rs assume "generateBaseRisks_part000 p = Inr rs"
  then obtain st where st: "risk_pool_part000 p = Inr st" "rs = select_top 12 (pool st)"
    unfolding generateBaseRisks_part000_Inr by blast
  then have "dataTypes p \<noteq> None" using risk_pool_part000_returns_iff by blast
  then obtain ds where "dataTypes p = Some ds" by blast
  from risk_pool_part000_Some[OF this] st(1)
  have "list_all product_score (pool st)" by simp
  then show "list_all product_score rs"
    unfolding st(2) by (rule product_score_select_top)
qed

theorem score_is_product_witness:
  "\<exists>rs. generateBaseRisks_part000 (form_default\<lparr>dataTypes := Some [''pii'']\<rparr>) = Inr rs \<and>
      list_all product_score rs"
proof -
  let ?p = "form_default\<lparr>dataTypes := Some [''pii'']\<rparr>"
  have d: "dataTypes ?p \<noteq> None" by simp
  from score_is_product[of ?p] d show ?thesis by blast
qed

subsection \<open>A profile without a \<open>dataTypes\<close> list\<close>

text \<open>
  Claim C5 says that the builder never throws, a missing list counting as "does not
  include". In \<open>unnamed/part_000\<close> the guard of the data-leakage rule evaluates
  \<open>profile.dataTypes.includes('pii')\<close> unconditionally: on a profile without
  \<open>dataTypes\<close>, such as the one the assessment form produces, reading \<open>includes\<close> of
  \<open>undefined\<close> throws a TypeError and no list is returned.
\<close>

theorem missing_dataTypes_throws:
  "dataTypes form_default = None \<and> generateBaseRisks_part000 form_default = Inl TypeError"
proof
  show d: "dataTypes form_default = None"
    by (simp add: form_default_def empty_profile_def)
  show "generateBaseRisks_part000 form_default = Inl TypeError"
    by (simp add: generateBaseRisks_part000_def risk_pool_part000_None[OF d])
qed

subsection \<open>Scenario B: no MFA, no backups, remote access, cloud hosting\<close>

lemma count_le_length: "length (filter P xs) \<le> length xs"
  by simp

lemma risk_pool_scenario:
  assumes "mfa p = Some ''none''" "backupFrequency p = Some ''none''"
  shows "has_risk ''Ransomware Data Loss'' 5 6 30 (pool (risk_pool p))
       \<and> has_risk ''Credential Reuse / Brute Force'' 5 4 20 (pool (risk_pool p))"
  unfolding risk_pool_def Let_def addToPool_def
  apply (simp only: pool_steps)
  using assms
  apply simp
  done

text \<open>
  Where the builder returns, the two records of the scenario are in the pool and in the
  returned list: in \<open>src/logic/grcEngine.js\<close> for every profile with the four fields,
  in \<open>unnamed/part_000\<close> for every such profile that also has a \<open>dataTypes\<close> list.
\<close>

lemma scenario_B_records_survive:
  "(mfa p = Some ''none'' \<and> backupFrequency p = Some ''none'' \<and> remote p = Some ''yes''
      \<and> hosting p = Some ''cloud'' \<longrightarrow>
      has_risk ''Ransomware Data Loss'' 5 6 30 (pool (risk_pool p)) \<and>
      has_risk ''Credential Reuse / Brute Force'' 5 4 20 (pool (risk_pool p)) \<and>
      has_risk ''Ransomware Data Loss'' 5 6 30 (generateBaseRisks p) \<and>
      has_risk ''Credential Reuse / Brute Force'' 5 4 20 (generateBaseRisks p)) \<and>
   (mfa p = Some ''none'' \<and> backupFrequency p = Some ''none'' \<and> remote p = Some ''yes''
      \<and> hosting p = Some ''cloud'' \<and> dataTypes p \<noteq> None \<longrightarrow>
      (\<exists>st rs. risk_pool_part000 p = Inr st \<and> generateBaseRisks_part000 p = Inr rs \<and>
         has_risk ''Ransomware Attack with Data Loss'' 5 6 30 (pool st) \<and>
         has_risk ''Credential Stuffing / Brute Force'' 5 4 20 (pool st) \<and>
         has_risk ''Ransomware Attack with Data Loss'' 5 6 30 rs \<and>
         has_risk ''Credential Stuffing / Brute Force'' 5 4 20 rs))"
proof (intro conjI impI)
  assume a: "mfa p = Some ''none'' \<and> backupFrequency p = Some ''none'' \<and> remote p = Some ''yes''
      \<and> hosting p = Some ''cloud''"
  then have h: "has_risk ''Ransomware Data Loss'' 5 6 30 (pool (risk_pool p))"
      "has_risk ''Credential Reuse / Brute Force'' 5 4 20 (pool (risk_pool p))"
    using risk_pool_scenario[of p] by simp_all
  have c: "length (filter (\<lambda>y. s \<le> score y) (pool (risk_pool p))) \<le> 15" for s
    using count_le_length[of "\<lambda>y. s \<le> score y" "pool (risk_pool p)"] length_risk_pool[of p]
    by linarith
  show "has_risk ''Ransomware Data Loss'' 5 6 30 (pool (risk_pool p))" by (rule h)
  show "has_risk ''Credential Reuse / Brute Force'' 5 4 20 (pool (risk_pool p))" by (rule h)
  show "has_risk ''Ransomware Data Loss'' 5 6 30 (generateBaseRisks p)"
    unfolding generateBaseRisks_def using h(1) c by (rule has_risk_select_top)
  show "has_risk ''Credential Reuse / Brute Force'' 5 4 20 (generateBaseRisks p)"
    unfolding generateBaseRisks_def using h(2) c by (rule has_risk_select_top)
next
  assume a: "mfa p = Some ''none'' \<and> backupFrequency p = Some ''none'' \<and> remote p = Some ''yes''
      \<and> hosting p = Some ''cloud'' \<and> dataTypes p \<noteq> None"
  then obtain ds where ds: "dataTypes p = Some ds" by blast
  from risk_pool_part000_scenario[OF ds] a obtain st where st:
    "risk_pool_part000 p = Inr st"
    "has_risk ''Ransomware Attack with Data Loss'' 5 6 30 (pool st)"
    "has_risk ''Credential Stuffing / Brute Force'' 5 4 20 (pool st)"
    "length (filter (\<lambda>y. 20 \<le> score y) (pool st)) \<le> 5"
    by blast
  have c20: "length (filter (\<lambda>y. 20 \<le> score y) (pool st)) \<le> 12" using st(4) by simp
  have "length (filter (\<lambda>y. 30 \<le> score y) (pool st))
      \<le> length (filter (\<lambda>y. 20 \<le> score y) (pool st))"
  proof -
    have "filter (\<lambda>y. 30 \<le> score y) (pool st)
        = filter (\<lambda>y. 30 \<le> score y) (filter (\<lambda>y. 20 \<le> score y) (pool st))"
      by (simp add: conj_commute cong: conj_cong) (rule filter_cong, auto)
    then show ?thesis by (metis length_filter_le)
  qed
  then have c30: "length (filter (\<lambda>y. 30 \<le> score y) (pool st)) \<le> 12" using st(4) by simp
  have r: "generateBaseRisks_part000 p = Inr (select_top 12 (pool st))"
    by (simp add: generateBaseRisks_part000_def st(1))
  show "\<exists>st rs. risk_pool_part000 p = Inr st \<and> generateBaseRisks_part000 p = Inr rs \<and>
         has_risk ''Ransomware Attack with Data Loss'' 5 6 30 (pool st) \<and>
         has_risk ''Credential Stuffing / Brute Force'' 5 4 20 (pool st) \<and>
         has_risk ''Ransomware Attack with Data Loss'' 5 6 30 rs \<and>
         has_risk ''Credential Stuffing / Brute Force'' 5 4 20 rs"
    using st(1,2,3) r has_risk_select_top[OF st(2) c30] has_risk_select_top[OF st(3) c20]
    by blast
qed

lemma scenario_B_records_survive_example:
  "has_risk ''Ransomware Data Loss'' 5 6 30 (generateBaseRisks form_default) \<and>
   has_risk ''Credential Reuse / Brute Force'' 5 4 20 (generateBaseRisks form_default) \<and>
   (\<exists>rs. generateBaseRisks_part000 (form_default\<lparr>dataTypes := Some [''pii'']\<rparr>) = Inr rs \<and>
         has_risk ''Ransomware Attack with Data Loss'' 5 6 30 rs \<and>
         has_risk ''Credential Stuffing / Brute Force'' 5 4 20 rs)"
proof -
  let ?p = "form_default\<lparr>dataTypes := Some [''pii'']\<rparr>"
  have 1: "mfa form_default = Some ''none'' \<and> backupFrequency form_default = Some ''none''
      \<and> remote form_default = Some ''yes'' \<and> hosting form_default = Some ''cloud''"
    by (simp add: form_default_def empty_profile_def)
  have 2: "mfa ?p = Some ''none'' \<and> backupFrequency ?p = Some ''none''
      \<and> remote ?p = Some ''yes'' \<and> hosting ?p = Some ''cloud'' \<and> dataTypes ?p \<noteq> None"
    by (simp add: form_default_def empty_profile_def)
  from scenario_B_records_survive[of form_default] 1
    scenario_B_records_survive[of ?p] 2
  show ?thesis by blast
qed

text \<open>
  Claim C6 says that for any profile with \<open>mfa = 'none'\<close>, \<open>backupFrequency = 'none'\<close>,
  \<open>remote = 'yes'\<close> and \<open>hosting = 'cloud'\<close> the pool holds a ransomware data-loss record
  (5, 6, score 30) and a credential brute-force record (5, 4, score 20), both of them in
  the returned list. On the profile that has these four fields and no other, the builder
  of \<open>unnamed/part_000\<close> reads \<open>profile.dataTypes.includes\<close> in the guard of the
  data-leakage rule, before the ransomware and the authentication rules are reached,
  and throws a TypeError: no pool is built and no list is returned. The builder of
  \<open>src/logic/grcEngine.js\<close>, which reads no list, returns both records on that profile.
\<close>

theorem scenario_B_part000_throws:
  "mfa scenario_B = Some ''none'' \<and> backupFrequency scenario_B = Some ''none'' \<and>
   remote scenario_B = Some ''yes'' \<and> hosting scenario_B = Some ''cloud'' \<and>
   risk_pool_part000 scenario_B = Inl TypeError \<and>
   generateBaseRisks_part000 scenario_B = Inl TypeError \<and>
   has_risk ''Ransomware Data Loss'' 5 6 30 (generateBaseRisks scenario_B) \<and>
   has_risk ''Credential Reuse / Brute Force'' 5 4 20 (generateBaseRisks scenario_B)"
proof -
  have f: "mfa scenario_B = Some ''none'' \<and> backupFrequency scenario_B = Some ''none'' \<and>
      remote scenario_B = Some ''yes'' \<and> hosting scenario_B = Some ''cloud''"
    by (simp add: scenario_B_def empty_profile_def)
  have d: "dataTypes scenario_B = None"
    by (simp add: scenario_B_def empty_profile_def)
  have t: "risk_pool_part000 scenario_B = Inl TypeError"
    using d by (rule risk_pool_part000_None)
  have g: "generateBaseRisks_part000 scenario_B = Inl TypeError"
    by (simp add: generateBaseRisks_part000_def t)
  from scenario_B_records_survive[of scenario_B] f
  have h: "has_risk ''Ransomware Data Loss'' 5 6 30 (generateBaseRisks scenario_B)"
      "has_risk ''Credential Reuse / Brute Force'' 5 4 20 (generateBaseRisks scenario_B)"
    by blast+
  from f t g h show ?thesis by blast
qed

section \<open>Properties of the gap identifier\<close>

lemma push_when_append: "push_when c x xs = xs @ (if c then [x] else [])"
  by (simp add: push_when_def)

lemma fired_Cons:
  "map snd (filter fst ((c, g) # rs)) = (if c then [g] else []) @ map snd (filter fst rs)"
  by simp

lemma fired_Nil: "map snd (filter fst []) = []"
  by simp

lemma form_default_scores:
  "calculateGovernanceScore form_default = 35"
  "calculateRiskScore form_default = 10"
  "calculateComplianceScore form_default = 50"
  by (simp_all add: calculateGovernanceScore_def calculateRiskScore_def calculateComplianceScore_def
      form_default_def empty_profile_def clamp_def truthy_num_def truthy_str_def num_gt_def)

text \<open>
  Claim C9. The gap list is the list of the gaps of the rules whose guards hold, in the
  declaration order of the rules (Governance, Risk, Compliance, Technical, Application,
  Operational); it is not sorted by severity: for the profile the assessment form starts
  from, a High gap comes first and a Critical gap second.
\<close>

theorem gaps_in_declaration_order:
  "identifyGaps p scores = map snd (filter fst (spec_gap_rules p scores)) \<and>
   map (category \<circ> snd) (spec_gap_rules p scores) =
     [''Governance'', ''Risk'', ''Risk'', ''Compliance'', ''Technical'', ''Application'',
      ''Application'', ''Operational'', ''Operational''] \<and>
   (\<exists>m. calculateMaturityScore form_default = Inr m \<and>
        map severity (identifyGaps form_default m) =
          [''High'', ''Critical'', ''Medium'', ''High'', ''Critical'', ''High'', ''High'', ''Medium''])"
proof (intro conjI)
  show "identifyGaps p scores = map snd (filter fst (spec_gap_rules p scores))"
    unfolding identifyGaps_def spec_gap_rules_def Let_def push_when_append
    by (simp only: fired_Cons fired_Nil append_assoc append_Nil append_Nil2)
  show "map (category \<circ> snd) (spec_gap_rules p scores) =
     [''Governance'', ''Risk'', ''Risk'', ''Compliance'', ''Technical'', ''Application'',
      ''Application'', ''Operational'', ''Operational'']"
    by (simp add: spec_gap_rules_def)
  have k: "property_key (industry form_default) \<notin> set object_prototype_keys"
    by (simp add: form_default_def empty_profile_def property_key_def object_prototype_keys_def)
  let ?m = "\<lparr>overall = Math_round (clamp (js_less_penalties form_default
              (js_weighted_sum (dimension_score form_default)
                 (spec_weight (spec_selected_config form_default))))),
       governance = calculateGovernanceScore form_default, risk = calculateRiskScore form_default,
       compliance = calculateComplianceScore form_default,
       technical = calculateTechnicalScore form_default,
       application = calculateApplicationScore form_default,
       operational = calculateOperationalScore form_default,
       labels = maturity_labels\<rparr>"
  have f: "mfa form_default = Some ''none''" "backupFrequency form_default = Some ''none''"
    "bcpDocumented form_default = Some ''no''" "industry form_default = Some ''saas''"
    "vulnerabilityScanning form_default = Some ''never''" "encryption form_default = Some ''no''"
    "incidentResponsePlan form_default = Some ''no''" "securityTraining form_default = Some ''none''"
    by (simp_all add: form_default_def empty_profile_def)
  have s: "map severity (identifyGaps form_default ?m) =
          [''High'', ''Critical'', ''Medium'', ''High'', ''Critical'', ''High'', ''High'', ''Medium'']"
    unfolding identifyGaps_def Let_def push_when_def
    by (simp add: form_default_scores f)
  show "\<exists>m. calculateMaturityScore form_default = Inr m \<and>
        map severity (identifyGaps form_default m) =
          [''High'', ''Critical'', ''Medium'', ''High'', ''Critical'', ''High'', ''High'', ''Medium'']"
    by (rule exI[of _ ?m], rule conjI, rule calculateMaturityScore_returns[OF k], rule s)
qed

section \<open>Properties of the report assembler\<close>

lemma dec_string_nonempty: "dec_string n \<noteq> []"
  by (subst dec_string.simps) simp

lemma generateFallbackSummary_nonempty: "generateFallbackSummary p m gs \<noteq> []"
  by (simp add: generateFallbackSummary_def)

lemma generateFallbackComplianceRoadmap_nonempty: "generateFallbackComplianceRoadmap p \<noteq> []"
  by (simp add: generateFallbackComplianceRoadmap_def)

lemma length_generateFallbackRecommendations:
  "length (generateFallbackRecommendations gs) = min 10 (length gs)"
  by (simp add: generateFallbackRecommendations_def min.commute)

text \<open>
  When every call on the AI engine is rejected and the scoring returns (the industry is
  not the name of a property inherited from \<open>Object.prototype\<close>), \<open>generateReport\<close>
  returns a report: its executive summary and its compliance roadmap are the non-empty
  fallback texts, its recommendations are the fallback list built from the gaps (empty
  when there are no gaps), and its risks are the base risks computed before any AI call.
\<close>

lemma report_survives_ai_failure:
  assumes "always_fails ai"
      and "property_key (industry p) \<notin> set object_prototype_keys"
  shows "\<exists>r m. generateReport ai bench p = Inr r \<and> calculateMaturityScore p = Inr m \<and>
     executiveSummary r = generateFallbackSummary p m (identifyGaps p m) \<and>
     executiveSummary r \<noteq> [] \<and>
     recommendations r = generateFallbackRecommendations (identifyGaps p m) \<and>
     length (recommendations r) = min 10 (length (identifyGaps p m)) \<and>
     complianceRoadmap r = generateFallbackComplianceRoadmap p \<and>
     complianceRoadmap r \<noteq> [] \<and>
     risks r = generateBaseRisks p \<and>
     r_maturity r = m \<and> r_gaps r = identifyGaps p m"
proof -
  from assms(2) obtain m where m: "calculateMaturityScore p = Inr m"
    using calculateMaturityScore_Inr_iff by blast
  from assms(1) obtain e1 e2 e3 e4 where
    f: "generateExecutiveSummary ai p m = Inl e1"
       "generateRecommendations ai p (identifyGaps p m) m = Inl e2"
       "generateComplianceRoadmap ai p = Inl e3"
       "quantifyRisks ai p (generateBaseRisks p) = Inl e4"
    unfolding always_fails_def by (metis isl_def)
  show ?thesis
    unfolding generateReport_def
    by (simp add: m f Let_def generateFallbackSummary_nonempty
        generateFallbackComplianceRoadmap_nonempty length_generateFallbackRecommendations)
qed

lemma report_survives_ai_failure_example:
  "\<exists>r m. generateReport failing_engine (\<lambda>p s. ()) form_default = Inr r \<and>
     calculateMaturityScore form_default = Inr m \<and>
     executiveSummary r \<noteq> [] \<and>
     length (recommendations r) = min 10 (length (identifyGaps form_default m)) \<and>
     complianceRoadmap r =
       ''# Compliance Roadmap'' @ newline @ newline
       @ ''Focus on standard frameworks relevant to saas.'' \<and>
     risks r = generateBaseRisks form_default"
proof -
  have a: "always_fails failing_engine"
    by (simp add: always_fails_def failing_engine_def)
  have k: "property_key (industry form_default) \<notin> set object_prototype_keys"
    by (simp add: form_default_def empty_profile_def property_key_def object_prototype_keys_def)
  have c: "generateFallbackComplianceRoadmap form_default =
       ''# Compliance Roadmap'' @ newline @ newline
       @ ''Focus on standard frameworks relevant to saas.''"
    by (simp add: generateFallbackComplianceRoadmap_def form_default_def empty_profile_def
        template_value_def)
  from report_survives_ai_failure[OF a k, of "\<lambda>p s. ()"] c show ?thesis by auto
qed

text \<open>
  Claim C7 says that \<open>generateReport\<close> still returns a report when all four AI calls
  fail. The scores are computed first, outside every \<open>try\<close>: on a profile whose industry
  is \<open>'constructor'\<close> the scoring throws a TypeError, which leaves \<open>generateReport\<close>
  before any AI call is made and before any fallback can apply. No report is returned,
  whatever the AI engine does, and so also when each of its calls is rejected.
\<close>

theorem report_throws_outside_try:
  "always_fails failing_engine \<and>
   generateReport failing_engine bench (empty_profile\<lparr>industry := Some ''constructor''\<rparr>)
     = Inl TypeError \<and>
   generateReport ai bench (empty_profile\<lparr>industry := Some ''constructor''\<rparr>)
     = Inl TypeError"
proof -
  let ?p = "empty_profile\<lparr>industry := Some ''constructor''\<rparr>"
  have a: "always_fails failing_engine"
    by (simp add: always_fails_def failing_engine_def)
  have "property_key (industry ?p) \<in> set object_prototype_keys"
    by (simp add: property_key_def object_prototype_keys_def)
  then have m: "calculateMaturityScore ?p = Inl TypeError"
    by (rule calculateMaturityScore_inherited)
  have r: "generateReport e bench ?p = Inl TypeError" for e
    by (simp add: generateReport_def m)
  from a r show ?thesis by blast
qed

end
